theory Spec2Isabelle
  imports Main
begin

section \<open>The rebase engine of libgit2 (src/rebase.c)\<close>

text \<open>
  A shallow embedding of \<^verbatim>\<open>src/rebase.c\<close>. Every C function of the file is a HOL
  function of the same name. A function that can fail returns a value of
  \<open>error + 'a\<close> (\<open>Inl\<close> the error); a function with side effects also returns the
  repository it leaves behind, so that the effects made before a failure stay visible.
  The collaborators of the file (filesystem, object database, references, index,
  checkout, revision walker, notes, configuration) are not part of the file; they are
  modelled on a small repository record, each definition marked as such.
\<close>

subsection \<open>Errors\<close>

text \<open>
  The C functions return an \<^verbatim>\<open>int\<close> and record a message with \<^verbatim>\<open>giterr_set\<close>.
  An error is the pair of the code and the message. \<open>GIT_ERROR\<close> is the generic
  \<^verbatim>\<open>-1\<close>; \<open>GIT_ABORT\<close> stands for a failed \<^verbatim>\<open>assert\<close> or a call of
  \<^verbatim>\<open>abort()\<close>, after which the process is gone.
\<close>

datatype error_code =
    GIT_ERROR
  | GIT_ENOTFOUND
  | GIT_EEXISTS
  | GIT_EMODIFIED
  | GIT_EUNMERGED
  | GIT_EUNBORNBRANCH
  | GIT_EBAREREPO
  | GIT_EMERGECONFLICT
  | GIT_EAPPLIED
  | GIT_ITEROVER
  | GIT_ABORT

type_synonym error = "error_code \<times> string"

subsection \<open>Objects\<close>

text \<open>
  An object id is kept in its canonical text form, a string of \<open>GIT_OID_HEXSZ\<close>
  lowercase hexadecimal digits, so that \<^verbatim>\<open>git_oid_fmt\<close> is the identity.
  A tree is the list of its (path, blob) entries.
\<close>

type_synonym oid = string
type_synonym tree = "(string \<times> string) list"

record git_signature =
  sig_name :: string
  sig_email :: string
  sig_when :: int

definition GIT_OID_HEXSZ :: nat where
  "GIT_OID_HEXSZ = 40"

record git_commit =
  commit_id :: oid
  commit_parents :: "oid list"
  commit_tree :: tree
  commit_time :: int
  commit_author :: git_signature
  commit_committer :: git_signature
  commit_message_encoding :: "string option"
  commit_message :: string

record git_index =
  entries :: tree
  conflicts :: "string list"

record git_merge_head =
  ref_name :: "string option"
  oid :: oid
  oid_str :: string

record git_rebase_options =
  version :: nat
  quiet :: bool
  rewrite_notes_ref :: "string option"

record git_checkout_options =
  checkout_strategy :: nat
  ancestor_label :: "string option"
  our_label :: "string option"
  their_label :: "string option"

subsection \<open>The state directory\<close>

text \<open>
  The two directories a rebase may live in, and the files of \<^verbatim>\<open>rebase.c\<close>'s
  \<^verbatim>\<open>#define\<close>s. \<open>CMT_FILE n\<close> is the name \<^verbatim>\<open>"cmt.%d"\<close> printed with \<open>n\<close>.
\<close>

datatype state_dir = REBASE_APPLY_DIR | REBASE_MERGE_DIR

datatype state_file =
    HEAD_NAME_FILE
  | ORIG_HEAD_FILE
  | HEAD_FILE
  | ONTO_FILE
  | ONTO_NAME_FILE
  | QUIET_FILE
  | MSGNUM_FILE
  | END_FILE
  | CMT_FILE int
  | CURRENT_FILE
  | REWRITTEN_FILE

definition ORIG_DETACHED_HEAD :: string where
  "ORIG_DETACHED_HEAD = ''detached HEAD''"

datatype git_rebase_type_t =
    GIT_REBASE_TYPE_NONE
  | GIT_REBASE_TYPE_APPLY
  | GIT_REBASE_TYPE_MERGE
  | GIT_REBASE_TYPE_INTERACTIVE

record git_rebase_state_merge =
  msgnum :: int
  merge_end :: int
  onto_name :: "string option"
  current :: "git_commit option"

record git_rebase_state =
  rtype :: git_rebase_type_t
  state_path :: "state_dir option"
  head_detached :: bool
  orig_head_name :: "string option"
  orig_head_id :: oid
  onto_id :: oid
  merge :: git_rebase_state_merge

subsection \<open>The repository\<close>

text \<open>
  \<open>HEAD\<close> is a direct reference to a commit or a symbolic reference to a branch.
  The external operations that can fail for reasons outside the repository's
  content (I/O errors, permissions) are named by \<open>ext_op\<close>; the set \<open>faults\<close> says
  which of them fail, with the generic error and no effect. \<open>trace\<close> records the
  persistent effects in program order.
\<close>

datatype head_target = Direct oid | Symbolic string

datatype ext_op =
    OP_MKDIR
  | OP_RMDIR
  | OP_WRITE state_file
  | OP_READ state_file
  | OP_SET_ORIG_HEAD
  | OP_CONFIG
  | OP_INDEX
  | OP_DIFF
  | OP_REVWALK
  | OP_REF_CREATE
  | OP_CHECKOUT
  | OP_MERGE
  | OP_MERGE_CHECK
  | OP_WRITE_TREE
  | OP_COMMIT_CREATE
  | OP_RESET
  | OP_NOTE

datatype event =
    EvMkdir state_dir
  | EvRmdir state_dir
  | EvWrite state_file string
  | EvAppend state_file string
  | EvOrigHead oid
  | EvRef string head_target string
  | EvCheckout
  | EvCommitCreate oid
  | EvReset oid
  | EvNote string oid

record repository =
  is_bare :: bool
  dirs :: "state_dir \<rightharpoonup> (state_file \<rightharpoonup> string)"
  ORIG_HEAD :: "oid option"
  HEAD :: "head_target option"
  refs :: "string \<rightharpoonup> oid"
  odb :: "git_commit list"
  odb_hash :: "git_commit \<Rightarrow> oid"
  index :: git_index
  workdir :: tree
  note_db :: "(string \<times> oid) \<rightharpoonup> (git_signature \<times> string)"
  config :: "string \<rightharpoonup> string"
  faults :: "ext_op set"
  trace :: "event list"

definition ext_error :: error where
  "ext_error = (GIT_ERROR, ''external failure'')"

subsection \<open>Collaborators: strings, filesystem, object lookup\<close>

text \<open>
  Modelled from the spec: the buffer, path and file utilities (\<^verbatim>\<open>git_buf_rtrim\<close>,
  \<^verbatim>\<open>git__strtol32\<close>, \<^verbatim>\<open>git_oid_fromstr\<close>, \<^verbatim>\<open>git_path_isdir\<close>,
  \<^verbatim>\<open>git_futils_readbuffer\<close>, \<^verbatim>\<open>git_commit_lookup\<close>), whose code is not in
  \<^verbatim>\<open>rebase.c\<close>. Values are right-trimmed of trailing whitespace on read; counters
  are decimal; an object id is \<open>GIT_OID_HEXSZ\<close> hexadecimal digits; reading a missing
  file signals "not found". Failures of memory allocation are not modelled.
\<close>

definition git__isspace :: "char \<Rightarrow> bool" where
  "git__isspace c = (c \<in> set [CHR '' '', CHR 0x09, CHR 0x0A, CHR 0x0B, CHR 0x0C, CHR 0x0D])"

definition git_buf_rtrim :: "string \<Rightarrow> string" where
  "git_buf_rtrim s = rev (dropWhile git__isspace (rev s))"

definition digit_val :: "char \<Rightarrow> int option" where
  "digit_val = map_of
     [(CHR ''0'', 0), (CHR ''1'', 1), (CHR ''2'', 2), (CHR ''3'', 3), (CHR ''4'', 4),
      (CHR ''5'', 5), (CHR ''6'', 6), (CHR ''7'', 7), (CHR ''8'', 8), (CHR ''9'', 9)]"

fun dec_value :: "int \<Rightarrow> string \<Rightarrow> int" where
  "dec_value acc [] = acc"
| "dec_value acc (c # cs) =
     (case digit_val c of None \<Rightarrow> acc | Some v \<Rightarrow> dec_value (acc * 10 + v) cs)"

definition git__strtol32 :: "string \<Rightarrow> error + int" where
  "git__strtol32 s =
     (let p = dropWhile git__isspace s;
          neg = (p \<noteq> [] \<and> hd p = CHR ''-'');
          q = (if p \<noteq> [] \<and> (hd p = CHR ''-'' \<or> hd p = CHR ''+'') then tl p else p);
          ds = takeWhile (\<lambda>c. digit_val c \<noteq> None) q;
          n = (if neg then - dec_value 0 ds else dec_value 0 ds)
      in if ds = [] then Inl (GIT_ERROR, ''Failed to convert string to long. Not a number'')
         else if n < - 2147483648 \<or> 2147483647 < n
         then Inl (GIT_ERROR, ''Failed to convert. Overflow error'')
         else Inr n)"

definition digit_char :: "nat \<Rightarrow> char" where
  "digit_char n = ''0123456789'' ! (n mod 10)"

fun dec_of_nat :: "nat \<Rightarrow> string" where
  "dec_of_nat n = (if n < 10 then [digit_char n] else dec_of_nat (n div 10) @ [digit_char n])"

declare dec_of_nat.simps [simp del]

text \<open>The \<^verbatim>\<open>"%d"\<close> of \<^verbatim>\<open>printf\<close>.\<close>

definition fmt_d :: "int \<Rightarrow> string" where
  "fmt_d i = (if i < 0 then CHR ''-'' # dec_of_nat (nat (- i)) else dec_of_nat (nat i))"

definition hex_lower :: "char \<Rightarrow> char option" where
  "hex_lower = map_of
     (zip ''0123456789abcdefABCDEF'' ''0123456789abcdefabcdef'')"

definition git_oid_fromstr :: "string \<Rightarrow> error + oid" where
  "git_oid_fromstr s =
     (if GIT_OID_HEXSZ \<le> length s \<and> list_all (\<lambda>c. hex_lower c \<noteq> None) (take GIT_OID_HEXSZ s)
      then Inr (map (\<lambda>c. the (hex_lower c)) (take GIT_OID_HEXSZ s))
      else Inl (GIT_ERROR, ''Unable to parse OID''))"

definition git_path_isdir :: "repository \<Rightarrow> state_dir \<Rightarrow> bool" where
  "git_path_isdir repo d = (dirs repo d \<noteq> None)"

definition git_path_exists :: "repository \<Rightarrow> state_dir \<Rightarrow> state_file \<Rightarrow> bool" where
  "git_path_exists repo d f = (case dirs repo d of None \<Rightarrow> False | Some fs \<Rightarrow> fs f \<noteq> None)"

definition git_path_isfile :: "repository \<Rightarrow> state_dir \<Rightarrow> state_file \<Rightarrow> bool" where
  "git_path_isfile repo d f = git_path_exists repo d f"

definition git_futils_readbuffer :: "repository \<Rightarrow> state_dir \<Rightarrow> state_file \<Rightarrow> error + string" where
  "git_futils_readbuffer repo d f =
     (if OP_READ f \<in> faults repo then Inl ext_error
      else case dirs repo d of
        None \<Rightarrow> Inl (GIT_ENOTFOUND, ''Could not find file to stat'')
      | Some fs \<Rightarrow>
          (case fs f of
             None \<Rightarrow> Inl (GIT_ENOTFOUND, ''Could not find file to stat'')
           | Some s \<Rightarrow> Inr s))"

definition git_commit_lookup :: "repository \<Rightarrow> oid \<Rightarrow> error + git_commit" where
  "git_commit_lookup repo i =
     (case find (\<lambda>c. commit_id c = i) (odb repo) of
        None \<Rightarrow> Inl (GIT_ENOTFOUND, ''Object not found'')
      | Some c \<Rightarrow> Inr c)"

subsection \<open>Loading the state: \<^verbatim>\<open>rebase_state_type\<close>, \<^verbatim>\<open>rebase_state_merge\<close>, \<^verbatim>\<open>rebase_state\<close>\<close>

definition GIT_REBASE_STATE_INIT :: git_rebase_state where
  "GIT_REBASE_STATE_INIT =
     \<lparr>rtype = GIT_REBASE_TYPE_NONE, state_path = None, head_detached = False,
      orig_head_name = None, orig_head_id = [], onto_id = [],
      merge = \<lparr>msgnum = 0, merge_end = 0, onto_name = None, current = None\<rparr>\<rparr>"

definition rebase_state_type :: "repository \<Rightarrow> git_rebase_type_t \<times> state_dir option" where
  "rebase_state_type repo =
     (if git_path_isdir repo REBASE_APPLY_DIR
      then (GIT_REBASE_TYPE_APPLY, Some REBASE_APPLY_DIR)
      else if git_path_isdir repo REBASE_MERGE_DIR
      then (GIT_REBASE_TYPE_MERGE, Some REBASE_MERGE_DIR)
      else (GIT_REBASE_TYPE_NONE, None))"

definition read_msgnum :: "git_rebase_state \<Rightarrow> repository \<Rightarrow> state_dir \<Rightarrow> error + git_rebase_state" where
  "read_msgnum state repo d =
     (if git_path_exists repo d MSGNUM_FILE then
        (case git_futils_readbuffer repo d MSGNUM_FILE of
           Inl e \<Rightarrow> Inl e
         | Inr msgnum_buf \<Rightarrow>
             (case git__strtol32 (git_buf_rtrim msgnum_buf) of
                Inl e \<Rightarrow> Inl e
              | Inr n \<Rightarrow> Inr (state\<lparr>merge := (merge state)\<lparr>msgnum := n\<rparr>\<rparr>)))
      else Inr state)"

definition read_current :: "git_rebase_state \<Rightarrow> repository \<Rightarrow> state_dir \<Rightarrow> error + git_rebase_state" where
  "read_current state repo d =
     (if git_path_exists repo d CURRENT_FILE then
        (case git_futils_readbuffer repo d CURRENT_FILE of
           Inl e \<Rightarrow> Inl e
         | Inr current_buf \<Rightarrow>
             (case git_oid_fromstr (git_buf_rtrim current_buf) of
                Inl e \<Rightarrow> Inl e
              | Inr current_id \<Rightarrow>
                  (case git_commit_lookup repo current_id of
                     Inl e \<Rightarrow> Inl e
                   | Inr c \<Rightarrow> Inr (state\<lparr>merge := (merge state)\<lparr>current := Some c\<rparr>\<rparr>))))
      else Inr state)"

definition rebase_state_merge :: "git_rebase_state \<Rightarrow> repository \<Rightarrow> error + git_rebase_state" where
  "rebase_state_merge state repo =
     (case state_path state of
        None \<Rightarrow> Inl (GIT_ABORT, ''state_path is NULL'')
      | Some d \<Rightarrow>
     (case git_futils_readbuffer repo d END_FILE of
        Inl e \<Rightarrow> Inl e
      | Inr end_buf \<Rightarrow>
     (case git__strtol32 (git_buf_rtrim end_buf) of
        Inl e \<Rightarrow> Inl e
      | Inr end_val \<Rightarrow>
     (case git_futils_readbuffer repo d ONTO_NAME_FILE of
        Inl e \<Rightarrow> Inl e
      | Inr onto_name_buf \<Rightarrow>
     (case read_msgnum
             (state\<lparr>merge := (merge state)
                \<lparr>merge_end := end_val, onto_name := Some (git_buf_rtrim onto_name_buf)\<rparr>\<rparr>)
             repo d of
        Inl e \<Rightarrow> Inl e
      | Inr state' \<Rightarrow> read_current state' repo d)))))"

definition rebase_state :: "repository \<Rightarrow> error + git_rebase_state" where
  "rebase_state repo =
     (case rebase_state_type repo of
        (GIT_REBASE_TYPE_NONE, _) \<Rightarrow> Inl (GIT_ENOTFOUND, ''There is no rebase in progress'')
      | (_, None) \<Rightarrow> Inl (GIT_ABORT, ''state_path is NULL'')
      | (t, Some d) \<Rightarrow>
     (case git_futils_readbuffer repo d HEAD_NAME_FILE of
        Inl e \<Rightarrow> Inl e
      | Inr orig_head_name_buf \<Rightarrow>
     (case git_futils_readbuffer repo d
             (if git_path_isfile repo d ORIG_HEAD_FILE then ORIG_HEAD_FILE else HEAD_FILE) of
        Inl e \<Rightarrow> Inl e
      | Inr orig_head_id_buf \<Rightarrow>
     (case git_oid_fromstr (git_buf_rtrim orig_head_id_buf) of
        Inl e \<Rightarrow> Inl e
      | Inr orig_id \<Rightarrow>
     (case git_futils_readbuffer repo d ONTO_FILE of
        Inl e \<Rightarrow> Inl e
      | Inr onto_id_buf \<Rightarrow>
     (case git_oid_fromstr (git_buf_rtrim onto_id_buf) of
        Inl e \<Rightarrow> Inl e
      | Inr onto \<Rightarrow>
          (let detached = (ORIG_DETACHED_HEAD = git_buf_rtrim orig_head_name_buf);
               state = GIT_REBASE_STATE_INIT
                 \<lparr>rtype := t, state_path := Some d, head_detached := detached,
                  orig_head_name :=
                    (if \<not> detached then Some (git_buf_rtrim orig_head_name_buf) else None),
                  orig_head_id := orig_id, onto_id := onto\<rparr>
           in case t of
                GIT_REBASE_TYPE_INTERACTIVE \<Rightarrow>
                  Inl (GIT_ERROR, ''Interactive rebase is not supported'')
              | GIT_REBASE_TYPE_MERGE \<Rightarrow> rebase_state_merge state repo
              | GIT_REBASE_TYPE_APPLY \<Rightarrow>
                  Inl (GIT_ERROR, ''Patch application rebase is not supported'')
              | GIT_REBASE_TYPE_NONE \<Rightarrow> Inl (GIT_ABORT, ''abort''))))))))"

subsection \<open>Collaborators: writing files, references, diff, checkout, configuration\<close>

text \<open>
  Modelled from the spec: the filesystem writers (\<^verbatim>\<open>p_mkdir\<close>,
  \<^verbatim>\<open>git_futils_writebuffer\<close>, \<^verbatim>\<open>git_futils_rmdir_r\<close>,
  \<^verbatim>\<open>git_repository__cleanup_files\<close>), the \<^verbatim>\<open>ORIG_HEAD\<close> marker, the reference
  database, the diff engine (only the number of deltas is used), the forced checkout of
  \<open>HEAD\<close>, and the configuration; none of their code is in \<^verbatim>\<open>rebase.c\<close>.
  A file is opened with the flags given; no flags (the \<^verbatim>\<open>-1\<close> of the callers) means
  create and truncate.
\<close>

datatype open_flag = O_CREAT | O_WRONLY | O_APPEND | O_TRUNC

definition p_mkdir :: "repository \<Rightarrow> state_dir \<Rightarrow> (error + unit) \<times> repository" where
  "p_mkdir repo d =
     (if OP_MKDIR \<in> faults repo \<or> dirs repo d \<noteq> None then (Inl ext_error, repo)
      else (Inr (), repo\<lparr>dirs := (dirs repo)(d \<mapsto> Map.empty),
                          trace := trace repo @ [EvMkdir d]\<rparr>))"

definition git_futils_rmdir_r :: "repository \<Rightarrow> state_dir \<Rightarrow> (error + unit) \<times> repository" where
  "git_futils_rmdir_r repo d =
     (if OP_RMDIR \<in> faults repo then (Inl ext_error, repo)
      else (Inr (), repo\<lparr>dirs := (dirs repo)(d := None),
                          trace := trace repo @ [EvRmdir d]\<rparr>))"

definition git_repository__cleanup_files :: "repository \<Rightarrow> state_dir \<Rightarrow> repository" where
  "git_repository__cleanup_files repo d =
     (if git_path_isdir repo d then snd (git_futils_rmdir_r repo d) else repo)"

definition git_futils_writebuffer ::
  "repository \<Rightarrow> string \<Rightarrow> state_dir \<Rightarrow> state_file \<Rightarrow> open_flag set \<Rightarrow> (error + unit) \<times> repository" where
  "git_futils_writebuffer repo contents d f flags =
     (if OP_WRITE f \<in> faults repo then (Inl ext_error, repo)
      else case dirs repo d of
        None \<Rightarrow> (Inl (GIT_ERROR, ''Could not open file for writing''), repo)
      | Some fs \<Rightarrow>
          (if O_APPEND \<in> flags
           then (Inr (), repo\<lparr>dirs := (dirs repo)
                    (d \<mapsto> fs(f \<mapsto> (case fs f of None \<Rightarrow> [] | Some old \<Rightarrow> old) @ contents)),
                  trace := trace repo @ [EvAppend f contents]\<rparr>)
           else (Inr (), repo\<lparr>dirs := (dirs repo)(d \<mapsto> fs(f \<mapsto> contents)),
                  trace := trace repo @ [EvWrite f contents]\<rparr>)))"

definition git_repository__set_orig_head :: "repository \<Rightarrow> oid \<Rightarrow> (error + unit) \<times> repository" where
  "git_repository__set_orig_head repo i =
     (if OP_SET_ORIG_HEAD \<in> faults repo then (Inl ext_error, repo)
      else (Inr (), repo\<lparr>ORIG_HEAD := Some i, trace := trace repo @ [EvOrigHead i]\<rparr>))"

definition GIT_HEAD_FILE :: string where
  "GIT_HEAD_FILE = ''HEAD''"

definition set_reference :: "repository \<Rightarrow> string \<Rightarrow> head_target \<Rightarrow> string \<Rightarrow> repository" where
  "set_reference repo name target log_message =
     (case target of
        Direct i \<Rightarrow>
          (if name = GIT_HEAD_FILE
           then repo\<lparr>HEAD := Some target, trace := trace repo @ [EvRef name target log_message]\<rparr>
           else repo\<lparr>refs := (refs repo)(name \<mapsto> i),
                     trace := trace repo @ [EvRef name target log_message]\<rparr>)
      | Symbolic _ \<Rightarrow>
          repo\<lparr>HEAD := Some target, trace := trace repo @ [EvRef name target log_message]\<rparr>)"

text \<open>
  A reference name is a C string that may be \<^verbatim>\<open>NULL\<close> (\<open>None\<close>): the reference
  functions assert that it is not. A direct reference must name an object of the
  database. The callers in \<^verbatim>\<open>rebase.c\<close> always force.
\<close>

definition git_reference_create ::
  "repository \<Rightarrow> string option \<Rightarrow> oid \<Rightarrow> bool \<Rightarrow> git_signature \<Rightarrow> string
     \<Rightarrow> (error + unit) \<times> repository" where
  "git_reference_create repo name i force signature log_message =
     (case name of
        None \<Rightarrow> (Inl (GIT_ABORT, ''assert(repo && name)''), repo)
      | Some n \<Rightarrow>
          (if OP_REF_CREATE \<in> faults repo then (Inl ext_error, repo)
           else case git_commit_lookup repo i of
             Inl e \<Rightarrow> (Inl (GIT_ERROR, ''Target OID for the reference does not exist''), repo)
           | Inr _ \<Rightarrow> (Inr (), set_reference repo n (Direct i) log_message)))"

definition git_reference_symbolic_create ::
  "repository \<Rightarrow> string option \<Rightarrow> string option \<Rightarrow> bool \<Rightarrow> git_signature \<Rightarrow> string
     \<Rightarrow> (error + unit) \<times> repository" where
  "git_reference_symbolic_create repo name target force signature log_message =
     (case (name, target) of
        (Some n, Some t) \<Rightarrow>
          (if OP_REF_CREATE \<in> faults repo then (Inl ext_error, repo)
           else (Inr (), set_reference repo n (Symbolic t) log_message))
      | _ \<Rightarrow> (Inl (GIT_ABORT, ''assert(repo && name && target)''), repo))"

definition git_reference_create_matching ::
  "repository \<Rightarrow> string option \<Rightarrow> oid \<Rightarrow> bool \<Rightarrow> oid \<Rightarrow> git_signature \<Rightarrow> string
     \<Rightarrow> (error + unit) \<times> repository" where
  "git_reference_create_matching repo name i force old_id signature log_message =
     (case name of
        None \<Rightarrow> (Inl (GIT_ABORT, ''assert(repo && name)''), repo)
      | Some n \<Rightarrow>
          (if OP_REF_CREATE \<in> faults repo then (Inl ext_error, repo)
           else if refs repo n \<noteq> Some old_id
           then (Inl (GIT_EMODIFIED, ''old reference value does not match''), repo)
           else case git_commit_lookup repo i of
             Inl e \<Rightarrow> (Inl (GIT_ERROR, ''Target OID for the reference does not exist''), repo)
           | Inr _ \<Rightarrow> (Inr (), set_reference repo n (Direct i) log_message)))"

text \<open>\<^verbatim>\<open>git_repository_head\<close> resolves \<open>HEAD\<close> to the commit id it stands for.\<close>

definition git_repository_head :: "repository \<Rightarrow> error + oid" where
  "git_repository_head repo =
     (case HEAD repo of
        None \<Rightarrow> Inl (GIT_ENOTFOUND, ''Reference HEAD not found'')
      | Some (Direct i) \<Rightarrow> Inr i
      | Some (Symbolic n) \<Rightarrow>
          (case refs repo n of
             None \<Rightarrow> Inl (GIT_EUNBORNBRANCH, ''Reference not found'')
           | Some i \<Rightarrow> Inr i))"

definition git_repository_head_commit :: "repository \<Rightarrow> error + git_commit" where
  "git_repository_head_commit repo =
     (case git_repository_head repo of
        Inl e \<Rightarrow> Inl e
      | Inr i \<Rightarrow> git_commit_lookup repo i)"

definition git_repository_head_tree :: "repository \<Rightarrow> error + tree" where
  "git_repository_head_tree repo =
     (case git_repository_head_commit repo of
        Inl e \<Rightarrow> Inl e
      | Inr c \<Rightarrow> Inr (commit_tree c))"

definition git_repository_index :: "repository \<Rightarrow> error + git_index" where
  "git_repository_index repo =
     (if OP_INDEX \<in> faults repo then Inl ext_error else Inr (index repo))"

text \<open>A diff is the list of the paths on which the two sides differ.\<close>

definition diff_paths :: "tree \<Rightarrow> tree \<Rightarrow> string list" where
  "diff_paths a b =
     filter (\<lambda>p. map_of a p \<noteq> map_of b p) (remdups (map fst a @ map fst b))"

definition git_diff_tree_to_index :: "repository \<Rightarrow> tree \<Rightarrow> git_index \<Rightarrow> error + string list" where
  "git_diff_tree_to_index repo t idx =
     (if OP_DIFF \<in> faults repo then Inl ext_error else Inr (diff_paths t (entries idx)))"

definition git_diff_index_to_workdir :: "repository \<Rightarrow> git_index \<Rightarrow> error + string list" where
  "git_diff_index_to_workdir repo idx =
     (if OP_DIFF \<in> faults repo then Inl ext_error
      else Inr (diff_paths (entries idx) (workdir repo)))"

definition git_diff_num_deltas :: "string list \<Rightarrow> nat" where
  "git_diff_num_deltas diff = length diff"

definition GIT_CHECKOUT_SAFE :: nat where "GIT_CHECKOUT_SAFE = 1"
definition GIT_CHECKOUT_FORCE :: nat where "GIT_CHECKOUT_FORCE = 4"

definition GIT_CHECKOUT_OPTIONS_INIT :: git_checkout_options where
  "GIT_CHECKOUT_OPTIONS_INIT =
     \<lparr>checkout_strategy = 0, ancestor_label = None, our_label = None, their_label = None\<rparr>"

definition git_checkout_head :: "repository \<Rightarrow> git_checkout_options \<Rightarrow> (error + unit) \<times> repository" where
  "git_checkout_head repo opts =
     (if OP_CHECKOUT \<in> faults repo then (Inl ext_error, repo)
      else case git_repository_head_tree repo of
        Inl e \<Rightarrow> (Inl e, repo)
      | Inr t \<Rightarrow>
          (Inr (), repo\<lparr>index := \<lparr>entries = t, conflicts = []\<rparr>, workdir := t,
                        trace := trace repo @ [EvCheckout]\<rparr>))"

definition git_repository__ensure_not_bare :: "repository \<Rightarrow> string \<Rightarrow> error + unit" where
  "git_repository__ensure_not_bare repo operation_name =
     (if is_bare repo
      then Inl (GIT_EBAREREPO,
             ''Cannot '' @ operation_name @
             ''. This operation is not allowed against bare repositories.'')
      else Inr ())"

definition git_repository_config :: "repository \<Rightarrow> error + (string \<rightharpoonup> string)" where
  "git_repository_config repo =
     (if OP_CONFIG \<in> faults repo then Inl ext_error else Inr (config repo))"

definition git_config__get_bool_force :: "(string \<rightharpoonup> string) \<Rightarrow> string \<Rightarrow> bool \<Rightarrow> bool" where
  "git_config__get_bool_force cfg key fallback_value =
     (case cfg key of
        None \<Rightarrow> fallback_value
      | Some v \<Rightarrow>
          (if v \<in> set [''true'', ''yes'', ''on'', ''1''] then True
           else if v \<in> set [''false'', ''no'', ''off'', ''0''] then False
           else fallback_value))"

definition git_config__get_string_force ::
  "(string \<rightharpoonup> string) \<Rightarrow> string \<Rightarrow> string option \<Rightarrow> string option" where
  "git_config__get_string_force cfg key fallback_value =
     (case cfg key of None \<Rightarrow> fallback_value | Some v \<Rightarrow> Some v)"

subsection \<open>Collaborator: the revision walker\<close>

text \<open>
  Modelled from the spec: the revision walker (\<^verbatim>\<open>git_revwalk_*\<close>), whose code is
  not in \<^verbatim>\<open>rebase.c\<close>. It yields the commits reachable from the pushed ids that are
  not reachable from the hidden ones, walking from the pushed commits towards their
  parents. The specification names one sort, topological with reverse chronological
  tie-break; \<^verbatim>\<open>rebase.c\<close> chooses the sort with the flags of the walker's interface,
  so each flag has its own meaning here. \<^verbatim>\<open>GIT_SORT_TIME\<close> alone (\<open>time_order\<close>): the
  walk hands out next the newest commit among those that are pushed or are a parent of
  a commit handed out before; a commit is thus found through one of its children, and a
  linear history comes out child before parent whatever the commit times.
  \<^verbatim>\<open>GIT_SORT_TOPOLOGICAL\<close> (\<open>topo_order\<close>): no parent comes before any of its children;
  together with the time flag the newest eligible commit comes first.
  \<^verbatim>\<open>GIT_SORT_REVERSE\<close> reverses the output. Commits of equal time come in the order in
  which they are found.
\<close>

datatype git_sort_t = GIT_SORT_TOPOLOGICAL | GIT_SORT_TIME | GIT_SORT_REVERSE

record git_revwalk =
  pushed :: "oid list"
  hidden :: "oid list"
  sorting :: "git_sort_t set"

definition git_revwalk_new :: git_revwalk where
  "git_revwalk_new = \<lparr>pushed = [], hidden = [], sorting = {}\<rparr>"

definition git_revwalk_push :: "repository \<Rightarrow> git_revwalk \<Rightarrow> oid \<Rightarrow> error + git_revwalk" where
  "git_revwalk_push repo walk i =
     (case git_commit_lookup repo i of
        Inl e \<Rightarrow> Inl e
      | Inr _ \<Rightarrow> Inr (walk\<lparr>pushed := i # pushed walk\<rparr>))"

definition git_revwalk_hide :: "repository \<Rightarrow> git_revwalk \<Rightarrow> oid \<Rightarrow> error + git_revwalk" where
  "git_revwalk_hide repo walk i =
     (case git_commit_lookup repo i of
        Inl e \<Rightarrow> Inl e
      | Inr _ \<Rightarrow> Inr (walk\<lparr>hidden := i # hidden walk\<rparr>))"

definition git_revwalk_sorting :: "git_revwalk \<Rightarrow> git_sort_t set \<Rightarrow> git_revwalk" where
  "git_revwalk_sorting walk sort_mode = walk\<lparr>sorting := sort_mode\<rparr>"

definition parents_of :: "repository \<Rightarrow> oid \<Rightarrow> oid list" where
  "parents_of repo i =
     (case git_commit_lookup repo i of Inl _ \<Rightarrow> [] | Inr c \<Rightarrow> commit_parents c)"

definition time_of :: "repository \<Rightarrow> oid \<Rightarrow> int" where
  "time_of repo i =
     (case git_commit_lookup repo i of Inl _ \<Rightarrow> 0 | Inr c \<Rightarrow> commit_time c)"

fun ancestors :: "repository \<Rightarrow> nat \<Rightarrow> oid list \<Rightarrow> oid list" where
  "ancestors repo 0 xs = xs"
| "ancestors repo (Suc n) xs =
     ancestors repo n (remdups (xs @ concat (map (parents_of repo) xs)))"

text \<open>
  The commits reachable from \<open>tips\<close>: parents are added as often as there are parent
  links in the object database, which is enough for every path (\<open>set_reachable\<close>).
  \<open>parent_rel\<close> relates a commit to each of its parents.
\<close>

definition reachable :: "repository \<Rightarrow> oid list \<Rightarrow> oid list" where
  "reachable repo tips =
     ancestors repo (length (concat (map commit_parents (odb repo)))) (remdups tips)"

definition parent_rel :: "repository \<Rightarrow> (oid \<times> oid) set" where
  "parent_rel repo = {(c, p). p \<in> set (parents_of repo c)}"

definition newest_first :: "repository \<Rightarrow> oid list \<Rightarrow> oid list" where
  "newest_first repo xs = sort_key (\<lambda>i. - time_of repo i) xs"

fun time_order :: "repository \<Rightarrow> oid list \<Rightarrow> nat \<Rightarrow> oid list \<Rightarrow> oid list \<Rightarrow> oid list" where
  "time_order repo tips 0 remaining handed = []"
| "time_order repo tips (Suc n) remaining handed =
     (case filter (\<lambda>c. c \<in> set tips \<or> list_ex (\<lambda>d. c \<in> set (parents_of repo d)) handed)
             (newest_first repo remaining) of
        [] \<Rightarrow> []
      | c # _ \<Rightarrow> c # time_order repo tips n (removeAll c remaining) (c # handed))"

fun topo_order :: "repository \<Rightarrow> (oid list \<Rightarrow> oid list) \<Rightarrow> nat \<Rightarrow> oid list \<Rightarrow> oid list" where
  "topo_order repo pref 0 remaining = []"
| "topo_order repo pref (Suc n) remaining =
     (case filter (\<lambda>c. list_all (\<lambda>d. c \<notin> set (parents_of repo d)) remaining) (pref remaining) of
        [] \<Rightarrow> []
      | c # _ \<Rightarrow> c # topo_order repo pref n (removeAll c remaining))"

definition walk_commits :: "repository \<Rightarrow> git_revwalk \<Rightarrow> oid list" where
  "walk_commits repo walk =
     filter (\<lambda>i. i \<notin> set (reachable repo (hidden walk))) (reachable repo (pushed walk))"

text \<open>
  The whole output of the walk, in the order in which \<^verbatim>\<open>git_revwalk_next\<close> hands
  it out before it returns \<open>GIT_ITEROVER\<close>.
\<close>

definition git_revwalk_all :: "repository \<Rightarrow> git_revwalk \<Rightarrow> error + oid list" where
  "git_revwalk_all repo walk =
     (let cand = walk_commits repo walk;
          ordered = (if GIT_SORT_TOPOLOGICAL \<in> sorting walk
                     then topo_order repo
                            (if GIT_SORT_TIME \<in> sorting walk then newest_first repo else (\<lambda>xs. xs))
                            (length cand) cand
                     else if GIT_SORT_TIME \<in> sorting walk
                     then time_order repo (pushed walk) (length cand) cand []
                     else cand)
      in if OP_REVWALK \<in> faults repo then Inl ext_error
         else Inr (if GIT_SORT_REVERSE \<in> sorting walk then rev ordered else ordered))"

subsection \<open>Starting a rebase: \<^verbatim>\<open>git_rebase\<close> and its helpers\<close>

definition rebase_cleanup :: "repository \<Rightarrow> git_rebase_state \<Rightarrow> (error + unit) \<times> repository" where
  "rebase_cleanup repo state =
     (case state_path state of
        None \<Rightarrow> (Inr (), repo)
      | Some d \<Rightarrow> (if git_path_isdir repo d then git_futils_rmdir_r repo d else (Inr (), repo)))"

text \<open>The file is always written under \<open>REBASE_MERGE_DIR\<close>; \<open>contents\<close> is the formatted text.\<close>

definition rebase_setupfile ::
  "repository \<Rightarrow> state_file \<Rightarrow> open_flag set \<Rightarrow> string \<Rightarrow> (error + unit) \<times> repository" where
  "rebase_setupfile repo filename flags contents =
     git_futils_writebuffer repo contents REBASE_MERGE_DIR filename flags"

definition rebase_onto_name :: "git_merge_head \<Rightarrow> string" where
  "rebase_onto_name onto =
     (case ref_name onto of
        Some n \<Rightarrow> (if take 11 n = ''refs/heads/'' then drop 11 n else n)
      | None \<Rightarrow> oid_str onto)"

text \<open>
  The \<^verbatim>\<open>while\<close> loop of \<^verbatim>\<open>rebase_setup_merge\<close> over the ids that
  \<^verbatim>\<open>git_revwalk_next\<close> yields; \<open>commit_cnt\<close> is the counter, returned when the walk is over.
\<close>

fun rebase_setup_merge_loop ::
  "repository \<Rightarrow> oid list \<Rightarrow> int \<Rightarrow> (error + int) \<times> repository" where
  "rebase_setup_merge_loop repo [] commit_cnt = (Inr commit_cnt, repo)"
| "rebase_setup_merge_loop repo (i # ids) commit_cnt =
     (case git_commit_lookup repo i of
        Inl e \<Rightarrow> (Inl e, repo)
      | Inr commit \<Rightarrow>
          (if length (commit_parents commit) > 1
           then rebase_setup_merge_loop repo ids commit_cnt
           else (case rebase_setupfile repo (CMT_FILE (commit_cnt + 1)) {}
                        (take GIT_OID_HEXSZ i @ [CHR 0x0A]) of
                   (Inl e, repo') \<Rightarrow> (Inl e, repo')
                 | (Inr _, repo') \<Rightarrow> rebase_setup_merge_loop repo' ids (commit_cnt + 1))))"

definition rebase_setup_merge ::
  "repository \<Rightarrow> git_merge_head \<Rightarrow> git_merge_head option \<Rightarrow> git_merge_head
     \<Rightarrow> git_rebase_options \<Rightarrow> (error + unit) \<times> repository" where
  "rebase_setup_merge repo branch upstream onto opts =
     (case git_revwalk_push repo git_revwalk_new (oid branch) of
        Inl e \<Rightarrow> (Inl e, repo)
      | Inr walk1 \<Rightarrow>
     (case git_revwalk_hide repo walk1
             (oid (case upstream of None \<Rightarrow> onto | Some u \<Rightarrow> u)) of
        Inl e \<Rightarrow> (Inl e, repo)
      | Inr walk2 \<Rightarrow>
     (case git_revwalk_all repo
             (git_revwalk_sorting walk2 {GIT_SORT_REVERSE, GIT_SORT_TIME}) of
        Inl e \<Rightarrow> (Inl e, repo)
      | Inr ids \<Rightarrow>
     (case rebase_setup_merge_loop repo ids 0 of
        (Inl e, repo1) \<Rightarrow> (Inl e, repo1)
      | (Inr commit_cnt, repo1) \<Rightarrow>
     (case rebase_setupfile repo1 END_FILE {} (fmt_d commit_cnt @ [CHR 0x0A]) of
        (Inl e, repo2) \<Rightarrow> (Inl e, repo2)
      | (Inr _, repo2) \<Rightarrow>
          rebase_setupfile repo2 ONTO_NAME_FILE {} (rebase_onto_name onto @ [CHR 0x0A]))))))"

definition rebase_setup_files ::
  "repository \<Rightarrow> git_merge_head \<Rightarrow> git_merge_head option \<Rightarrow> git_merge_head
     \<Rightarrow> git_rebase_options \<Rightarrow> (error + unit) \<times> repository" where
  "rebase_setup_files repo branch upstream onto opts =
     (case p_mkdir repo REBASE_MERGE_DIR of
        (Inl e, repo1) \<Rightarrow> (Inl (GIT_ERROR, ''Failed to create rebase directory''), repo1)
      | (Inr _, repo1) \<Rightarrow>
     (case git_repository__set_orig_head repo1 (oid branch) of
        (Inl e, repo2) \<Rightarrow> (Inl e, repo2)
      | (Inr _, repo2) \<Rightarrow>
     (case rebase_setupfile repo2 HEAD_NAME_FILE {}
             ((case ref_name branch of Some n \<Rightarrow> n | None \<Rightarrow> ORIG_DETACHED_HEAD) @ [CHR 0x0A]) of
        (Inl e, repo3) \<Rightarrow> (Inl e, repo3)
      | (Inr _, repo3) \<Rightarrow>
     (case rebase_setupfile repo3 ONTO_FILE {} (oid_str onto @ [CHR 0x0A]) of
        (Inl e, repo4) \<Rightarrow> (Inl e, repo4)
      | (Inr _, repo4) \<Rightarrow>
     (case rebase_setupfile repo4 ORIG_HEAD_FILE {} (oid_str branch @ [CHR 0x0A]) of
        (Inl e, repo5) \<Rightarrow> (Inl e, repo5)
      | (Inr _, repo5) \<Rightarrow>
     (case rebase_setupfile repo5 QUIET_FILE {}
             (if quiet opts then ''t'' @ [CHR 0x0A] else [CHR 0x0A]) of
        (Inl e, repo6) \<Rightarrow> (Inl e, repo6)
      | (Inr _, repo6) \<Rightarrow> rebase_setup_merge repo6 branch upstream onto opts))))))"

text \<open>
  \<^verbatim>\<open>rebase_setup\<close>: the body above, then the label \<^verbatim>\<open>done\<close>, which removes the
  state directory when the body failed.
\<close>

definition rebase_setup ::
  "repository \<Rightarrow> git_merge_head \<Rightarrow> git_merge_head option \<Rightarrow> git_merge_head
     \<Rightarrow> git_rebase_options \<Rightarrow> (error + unit) \<times> repository" where
  "rebase_setup repo branch upstream onto opts =
     (case rebase_setup_files repo branch upstream onto opts of
        (Inl e, repo') \<Rightarrow> (Inl e, git_repository__cleanup_files repo' REBASE_MERGE_DIR)
      | (Inr u, repo') \<Rightarrow> (Inr u, repo'))"

definition GIT_REBASE_OPTIONS_INIT :: git_rebase_options where
  "GIT_REBASE_OPTIONS_INIT = \<lparr>version = 1, quiet = False, rewrite_notes_ref = None\<rparr>"

text \<open>\<^verbatim>\<open>GITERR_CHECK_VERSION\<close>: an absent structure passes; a present one needs version 1.\<close>

definition giterr__check_version :: "git_rebase_options option \<Rightarrow> nat \<Rightarrow> bool" where
  "giterr__check_version given_opts expected_max =
     (case given_opts of
        None \<Rightarrow> True
      | Some opts \<Rightarrow> 0 < version opts \<and> version opts \<le> expected_max)"

definition rebase_normalize_opts ::
  "repository \<Rightarrow> git_rebase_options option \<Rightarrow> error + git_rebase_options" where
  "rebase_normalize_opts repo given_opts =
     (case git_repository_config repo of
        Inl e \<Rightarrow> Inl (GIT_ERROR, snd e)
      | Inr cfg \<Rightarrow>
          (let opts = (case given_opts of Some g \<Rightarrow> g | None \<Rightarrow> GIT_REBASE_OPTIONS_INIT) in
           if given_opts \<noteq> None \<and> rewrite_notes_ref opts \<noteq> None then Inr opts
           else if git_config__get_bool_force cfg ''notes.rewrite.rebase'' True
           then (case git_config__get_string_force cfg ''notes.rewriteref'' None of
                   Some rewrite_ref \<Rightarrow> Inr (opts\<lparr>rewrite_notes_ref := Some rewrite_ref\<rparr>)
                 | None \<Rightarrow> Inr opts)
           else Inr opts))"

definition rebase_ensure_not_in_progress :: "repository \<Rightarrow> error + unit" where
  "rebase_ensure_not_in_progress repo =
     (if fst (rebase_state_type repo) \<noteq> GIT_REBASE_TYPE_NONE
      then Inl (GIT_ERROR, ''There is an existing rebase in progress'')
      else Inr ())"

definition rebase_ensure_not_dirty :: "repository \<Rightarrow> error + unit" where
  "rebase_ensure_not_dirty repo =
     (case git_repository_head_tree repo of
        Inl e \<Rightarrow> Inl e
      | Inr head \<Rightarrow>
     (case git_repository_index repo of
        Inl e \<Rightarrow> Inl e
      | Inr idx \<Rightarrow>
     (case git_diff_tree_to_index repo head idx of
        Inl e \<Rightarrow> Inl e
      | Inr diff \<Rightarrow>
          (if git_diff_num_deltas diff > 0
           then Inl (GIT_ERROR, ''Uncommitted changes exist in index'')
           else (case git_diff_index_to_workdir repo idx of
                   Inl e \<Rightarrow> Inl e
                 | Inr diff' \<Rightarrow>
                     (if git_diff_num_deltas diff' > 0
                      then Inl (GIT_ERROR, ''Unstaged changes exist in workdir'')
                      else Inr ()))))))"

definition git_rebase ::
  "repository \<Rightarrow> git_merge_head \<Rightarrow> git_merge_head option \<Rightarrow> git_merge_head option
     \<Rightarrow> git_signature \<Rightarrow> git_rebase_options option \<Rightarrow> (error + unit) \<times> repository" where
  "git_rebase repo branch upstream onto signature given_opts =
     (case (case onto of None \<Rightarrow> upstream | Some given_onto \<Rightarrow> Some given_onto) of
        None \<Rightarrow> (Inl (GIT_ABORT, ''assert(repo && branch && (upstream || onto))''), repo)
      | Some onto' \<Rightarrow>
     (if \<not> giterr__check_version given_opts 1
      then (Inl (GIT_ERROR, ''Invalid version on git_merge_options''), repo)
      else
     (case rebase_normalize_opts repo given_opts of
        Inl e \<Rightarrow> (Inl e, repo)
      | Inr opts \<Rightarrow>
     (case git_repository__ensure_not_bare repo ''rebase'' of
        Inl e \<Rightarrow> (Inl e, repo)
      | Inr _ \<Rightarrow>
     (case rebase_ensure_not_in_progress repo of
        Inl e \<Rightarrow> (Inl e, repo)
      | Inr _ \<Rightarrow>
     (case rebase_ensure_not_dirty repo of
        Inl e \<Rightarrow> (Inl e, repo)
      | Inr _ \<Rightarrow>
     (case rebase_setup repo branch upstream onto' opts of
        (Inl e, repo1) \<Rightarrow> (Inl e, repo1)
      | (Inr _, repo1) \<Rightarrow>
     (case git_reference_create repo1 (Some GIT_HEAD_FILE) (oid onto') True signature
             (''rebase: checkout '' @ rebase_onto_name onto') of
        (Inl e, repo2) \<Rightarrow> (Inl e, repo2)
      | (Inr _, repo2) \<Rightarrow>
          git_checkout_head repo2
            (GIT_CHECKOUT_OPTIONS_INIT\<lparr>checkout_strategy := GIT_CHECKOUT_FORCE\<rparr>)))))))))"

subsection \<open>Collaborators: merge, index checkout, commit creation, reset, notes\<close>

text \<open>
  Modelled from the spec: the three-way tree merge (conflicts appear as conflict
  entries of the resulting index), the library's check of the merge result, the
  checkout of an index, writing the index as a tree, commit creation (the object
  database names the new commit by \<open>odb_hash\<close>), the update of \<open>HEAD\<close> for a new
  commit, the hard reset, and the notes; none of their code is in \<^verbatim>\<open>rebase.c\<close>.
\<close>

definition merge_entry ::
  "string option \<Rightarrow> string option \<Rightarrow> string option \<Rightarrow> string option option" where
  "merge_entry a ours theirs =
     (if ours = theirs then Some ours
      else if a = ours then Some theirs
      else if a = theirs then Some ours
      else None)"

definition git_merge_trees :: "repository \<Rightarrow> tree option \<Rightarrow> tree \<Rightarrow> tree \<Rightarrow> error + git_index" where
  "git_merge_trees repo ancestor_tree our_tree their_tree =
     (let anc = (case ancestor_tree of None \<Rightarrow> [] | Some t \<Rightarrow> t);
          paths = remdups (map fst anc @ map fst our_tree @ map fst their_tree);
          merged = map (\<lambda>p. (p, merge_entry (map_of anc p) (map_of our_tree p) (map_of their_tree p))) paths
      in if OP_MERGE \<in> faults repo then Inl ext_error
         else Inr \<lparr>entries = concat (map (\<lambda>(p, m). case m of Some (Some b) \<Rightarrow> [(p, b)] | _ \<Rightarrow> []) merged),
                   conflicts = concat (map (\<lambda>(p, m). case m of None \<Rightarrow> [p] | _ \<Rightarrow> []) merged)\<rparr>)"

definition git_merge__check_result :: "repository \<Rightarrow> git_index \<Rightarrow> error + unit" where
  "git_merge__check_result repo idx =
     (if OP_MERGE_CHECK \<in> faults repo
      then Inl (GIT_EMERGECONFLICT, ''changes would be overwritten by merge'')
      else Inr ())"

definition git_checkout_index ::
  "repository \<Rightarrow> git_index \<Rightarrow> git_checkout_options \<Rightarrow> (error + unit) \<times> repository" where
  "git_checkout_index repo idx opts =
     (if OP_CHECKOUT \<in> faults repo then (Inl ext_error, repo)
      else (Inr (), repo\<lparr>index := idx, workdir := entries idx,
                          trace := trace repo @ [EvCheckout]\<rparr>))"

definition git_index_has_conflicts :: "git_index \<Rightarrow> bool" where
  "git_index_has_conflicts idx = (conflicts idx \<noteq> [])"

definition git_index_write_tree :: "repository \<Rightarrow> git_index \<Rightarrow> error + tree" where
  "git_index_write_tree repo idx =
     (if OP_WRITE_TREE \<in> faults repo then Inl ext_error
      else if git_index_has_conflicts idx
      then Inl (GIT_EUNMERGED, ''Cannot create a tree from a not fully merged index'')
      else Inr (entries idx))"

definition git_commit_summary :: "git_commit option \<Rightarrow> string option" where
  "git_commit_summary commit =
     (case commit of
        None \<Rightarrow> None
      | Some c \<Rightarrow> Some (takeWhile (\<lambda>ch. ch \<noteq> CHR 0x0A) (commit_message c)))"

definition git_commit_create ::
  "repository \<Rightarrow> git_signature \<Rightarrow> git_signature \<Rightarrow> string option \<Rightarrow> string \<Rightarrow> tree
     \<Rightarrow> git_commit list \<Rightarrow> (error + oid) \<times> repository" where
  "git_commit_create repo author committer message_encoding message t parents =
     (let c = \<lparr>commit_id = [], commit_parents = map commit_id parents, commit_tree = t,
               commit_time = sig_when committer, commit_author = author,
               commit_committer = committer, commit_message_encoding = message_encoding,
               commit_message = message\<rparr>;
          new_id = odb_hash repo c
      in if OP_COMMIT_CREATE \<in> faults repo then (Inl ext_error, repo)
         else (Inr new_id,
               repo\<lparr>odb := (case git_commit_lookup repo new_id of
                               Inl _ \<Rightarrow> odb repo @ [c\<lparr>commit_id := new_id\<rparr>]
                             | Inr _ \<Rightarrow> odb repo),
                     trace := trace repo @ [EvCommitCreate new_id]\<rparr>))"

definition git_reference__update_for_commit ::
  "repository \<Rightarrow> string \<Rightarrow> oid \<Rightarrow> git_signature \<Rightarrow> string \<Rightarrow> (error + unit) \<times> repository" where
  "git_reference__update_for_commit repo refname i signature operation =
     (if OP_REF_CREATE \<in> faults repo then (Inl ext_error, repo)
      else case HEAD repo of
        Some (Symbolic n) \<Rightarrow> (Inr (), set_reference repo n (Direct i) operation)
      | _ \<Rightarrow> (Inr (), set_reference repo refname (Direct i) operation))"

definition git_reset :: "repository \<Rightarrow> git_commit \<Rightarrow> git_signature \<Rightarrow> (error + unit) \<times> repository" where
  "git_reset repo target signature =
     (if OP_RESET \<in> faults repo then (Inl ext_error, repo)
      else case git_reference__update_for_commit repo GIT_HEAD_FILE (commit_id target)
                  signature ''reset: moving'' of
        (Inl e, repo') \<Rightarrow> (Inl e, repo')
      | (Inr _, repo') \<Rightarrow>
          (Inr (), repo'\<lparr>index := \<lparr>entries = commit_tree target, conflicts = []\<rparr>,
                         workdir := commit_tree target,
                         trace := trace repo' @ [EvReset (commit_id target)]\<rparr>))"

definition git_note_read ::
  "repository \<Rightarrow> string \<Rightarrow> oid \<Rightarrow> error + (git_signature \<times> string)" where
  "git_note_read repo notes_ref i =
     (if OP_NOTE \<in> faults repo then Inl ext_error
      else case note_db repo (notes_ref, i) of
        None \<Rightarrow> Inl (GIT_ENOTFOUND, ''Note could not be found'')
      | Some n \<Rightarrow> Inr n)"

definition git_note_create ::
  "repository \<Rightarrow> git_signature \<Rightarrow> git_signature \<Rightarrow> string \<Rightarrow> oid \<Rightarrow> string \<Rightarrow> bool
     \<Rightarrow> (error + unit) \<times> repository" where
  "git_note_create repo author committer notes_ref i note force =
     (if OP_NOTE \<in> faults repo then (Inl ext_error, repo)
      else if \<not> force \<and> note_db repo (notes_ref, i) \<noteq> None
      then (Inl (GIT_EEXISTS, ''Note for object already exists''), repo)
      else (Inr (), repo\<lparr>note_db := (note_db repo)((notes_ref, i) \<mapsto> (author, note)),
                          trace := trace repo @ [EvNote notes_ref i]\<rparr>))"

subsection \<open>The next pick: \<^verbatim>\<open>git_rebase_next\<close>\<close>

text \<open>
  The counters \<open>msgnum\<close> and \<open>merge_end\<close> are \<^verbatim>\<open>int32_t\<close> and come from
  \<^verbatim>\<open>git__strtol32\<close>, which rejects values outside that range. \<^verbatim>\<open>msgnum++\<close> on the
  largest value is undefined in C and is not modelled; the same holds for the \<^verbatim>\<open>int\<close>
  counter of \<^verbatim>\<open>rebase_setup_merge\<close>.
\<close>

definition normalize_checkout_opts ::
  "repository \<Rightarrow> git_checkout_options option \<Rightarrow> git_rebase_state \<Rightarrow> error + git_checkout_options" where
  "normalize_checkout_opts repo given_checkout_opts state =
     (let co = (case given_checkout_opts of
                  Some g \<Rightarrow> g
                | None \<Rightarrow> GIT_CHECKOUT_OPTIONS_INIT\<lparr>checkout_strategy := GIT_CHECKOUT_SAFE\<rparr>);
          co1 = (if ancestor_label co = None then co\<lparr>ancestor_label := Some ''ancestor''\<rparr> else co)
      in if rtype state = GIT_REBASE_TYPE_MERGE then
           (let co2 = (if our_label co1 = None
                       then co1\<lparr>our_label := onto_name (merge state)\<rparr> else co1)
            in Inr (if their_label co2 = None
                    then co2\<lparr>their_label := git_commit_summary (current (merge state))\<rparr>
                    else co2))
         else Inl (GIT_ABORT, ''abort''))"

definition parent_tree_of :: "repository \<Rightarrow> git_commit \<Rightarrow> error + tree option" where
  "parent_tree_of repo c =
     (case commit_parents c of
        [] \<Rightarrow> Inr None
      | p # _ \<Rightarrow>
          (case git_commit_lookup repo p of
             Inl e \<Rightarrow> Inl e
           | Inr parent_commit \<Rightarrow> Inr (Some (commit_tree parent_commit))))"

definition rebase_next_merge ::
  "repository \<Rightarrow> git_rebase_state \<Rightarrow> git_checkout_options option \<Rightarrow> (error + unit) \<times> repository" where
  "rebase_next_merge repo state given_checkout_opts =
     (if msgnum (merge state) = merge_end (merge state) then (Inl (GIT_ITEROVER, []), repo)
      else
     (case state_path state of
        None \<Rightarrow> (Inl (GIT_ABORT, ''state_path is NULL''), repo)
      | Some d \<Rightarrow>
     (case git_futils_readbuffer repo d (CMT_FILE (msgnum (merge state) + 1)) of
        Inl e \<Rightarrow> (Inl e, repo)
      | Inr current_buf \<Rightarrow>
     (case git_oid_fromstr (git_buf_rtrim current_buf) of
        Inl e \<Rightarrow> (Inl e, repo)
      | Inr current_id \<Rightarrow>
     (case git_commit_lookup repo current_id of
        Inl e \<Rightarrow> (Inl e, repo)
      | Inr current_commit \<Rightarrow>
     (case git_repository_head_tree repo of
        Inl e \<Rightarrow> (Inl e, repo)
      | Inr head_tree \<Rightarrow>
     (if length (commit_parents current_commit) > 1
      then (Inl (GIT_ERROR, ''Cannot rebase a merge commit''), repo)
      else
     (case parent_tree_of repo current_commit of
        Inl e \<Rightarrow> (Inl e, repo)
      | Inr parent_tree \<Rightarrow>
     (case rebase_setupfile repo MSGNUM_FILE {}
             (fmt_d (msgnum (merge state) + 1) @ [CHR 0x0A]) of
        (Inl e, repo1) \<Rightarrow> (Inl e, repo1)
      | (Inr _, repo1) \<Rightarrow>
     (case rebase_setupfile repo1 CURRENT_FILE {} (git_buf_rtrim current_buf @ [CHR 0x0A]) of
        (Inl e, repo2) \<Rightarrow> (Inl e, repo2)
      | (Inr _, repo2) \<Rightarrow>
     (case normalize_checkout_opts repo2 given_checkout_opts
             (state\<lparr>merge := (merge state)
                \<lparr>msgnum := msgnum (merge state) + 1, current := Some current_commit\<rparr>\<rparr>) of
        Inl e \<Rightarrow> (Inl e, repo2)
      | Inr checkout_opts \<Rightarrow>
     (case git_merge_trees repo2 parent_tree head_tree (commit_tree current_commit) of
        Inl e \<Rightarrow> (Inl e, repo2)
      | Inr idx \<Rightarrow>
     (case git_merge__check_result repo2 idx of
        Inl e \<Rightarrow> (Inl e, repo2)
      | Inr _ \<Rightarrow> git_checkout_index repo2 idx checkout_opts)))))))))))))"

definition git_rebase_next ::
  "repository \<Rightarrow> git_checkout_options option \<Rightarrow> (error + unit) \<times> repository" where
  "git_rebase_next repo checkout_opts =
     (case rebase_state repo of
        Inl e \<Rightarrow> (Inl (GIT_ERROR, snd e), repo)
      | Inr state \<Rightarrow>
          (case rtype state of
             GIT_REBASE_TYPE_MERGE \<Rightarrow> rebase_next_merge repo state checkout_opts
           | _ \<Rightarrow> (Inl (GIT_ABORT, ''abort''), repo)))"

subsection \<open>Committing the pick: \<^verbatim>\<open>git_rebase_commit\<close>\<close>

text \<open>
  \<open>author\<close>, \<open>message_encoding\<close> and \<open>message\<close> may be \<^verbatim>\<open>NULL\<close> (\<open>None\<close>).
  The first test of the C function is \<^verbatim>\<open>!state->merge.msgnum || !state->merge.current\<close>;
  both disjuncts lead to the same error.
\<close>

definition rebase_commit_merge ::
  "repository \<Rightarrow> git_rebase_state \<Rightarrow> git_signature option \<Rightarrow> git_signature
     \<Rightarrow> string option \<Rightarrow> string option \<Rightarrow> (error + oid) \<times> repository" where
  "rebase_commit_merge repo state author committer message_encoding message =
     (case (if msgnum (merge state) = 0 then None else current (merge state)) of
        None \<Rightarrow> (Inl (GIT_ERROR, ''No rebase-merge state files exist''), repo)
      | Some cur \<Rightarrow>
     (case git_repository_index repo of
        Inl e \<Rightarrow> (Inl e, repo)
      | Inr idx \<Rightarrow>
     (if git_index_has_conflicts idx
      then (Inl (GIT_EMERGECONFLICT, ''Conflicts have not been resolved''), repo)
      else
     (case git_repository_head_commit repo of
        Inl e \<Rightarrow> (Inl e, repo)
      | Inr head_commit \<Rightarrow>
     (case git_diff_tree_to_index repo (commit_tree head_commit) idx of
        Inl e \<Rightarrow> (Inl e, repo)
      | Inr diff \<Rightarrow>
     (if git_diff_num_deltas diff = 0
      then (Inl (GIT_EAPPLIED, ''This patch has already been applied''), repo)
      else
     (case git_index_write_tree repo idx of
        Inl e \<Rightarrow> (Inl e, repo)
      | Inr t \<Rightarrow>
     (case git_commit_create repo
             (case author of None \<Rightarrow> commit_author cur | Some a \<Rightarrow> a)
             committer
             (case message of None \<Rightarrow> commit_message_encoding cur | Some _ \<Rightarrow> message_encoding)
             (case message of None \<Rightarrow> commit_message cur | Some m \<Rightarrow> m)
             t [head_commit] of
        (Inl e, repo1) \<Rightarrow> (Inl e, repo1)
      | (Inr new_id, repo1) \<Rightarrow>
     (case git_commit_lookup repo1 new_id of
        Inl e \<Rightarrow> (Inl e, repo1)
      | Inr commit \<Rightarrow>
     (case git_reference__update_for_commit repo1 ''HEAD'' new_id committer ''rebase'' of
        (Inl e, repo2) \<Rightarrow> (Inl e, repo2)
      | (Inr _, repo2) \<Rightarrow>
     (case rebase_setupfile repo2 REWRITTEN_FILE {O_CREAT, O_WRONLY, O_APPEND}
             (take GIT_OID_HEXSZ (commit_id cur) @ '' '' @ take GIT_OID_HEXSZ new_id @ [CHR 0x0A]) of
        (Inl e, repo3) \<Rightarrow> (Inl e, repo3)
      | (Inr _, repo3) \<Rightarrow> (Inr new_id, repo3))))))))))))"

definition git_rebase_commit ::
  "repository \<Rightarrow> git_signature option \<Rightarrow> git_signature \<Rightarrow> string option \<Rightarrow> string option
     \<Rightarrow> (error + oid) \<times> repository" where
  "git_rebase_commit repo author committer message_encoding message =
     (case rebase_state repo of
        Inl e \<Rightarrow> (Inl e, repo)
      | Inr state \<Rightarrow>
          (case rtype state of
             GIT_REBASE_TYPE_MERGE \<Rightarrow>
               rebase_commit_merge repo state author committer message_encoding message
           | _ \<Rightarrow> (Inl (GIT_ABORT, ''abort''), repo)))"

subsection \<open>Abort and finish: \<^verbatim>\<open>git_rebase_abort\<close>, \<^verbatim>\<open>git_rebase_finish\<close>\<close>

text \<open>The body of \<^verbatim>\<open>git_rebase_abort\<close> once the state is loaded.\<close>

definition rebase_abort_loaded ::
  "repository \<Rightarrow> git_rebase_state \<Rightarrow> git_signature \<Rightarrow> (error + unit) \<times> repository" where
  "rebase_abort_loaded repo state signature =
     (case (if head_detached state
            then git_reference_create repo (Some GIT_HEAD_FILE) (orig_head_id state) True
                   signature ''rebase: aborting''
            else git_reference_symbolic_create repo (Some GIT_HEAD_FILE) (orig_head_name state)
                   True signature ''rebase: aborting'') of
        (Inl e, repo1) \<Rightarrow> (Inl e, repo1)
      | (Inr _, repo1) \<Rightarrow>
     (case git_commit_lookup repo1 (orig_head_id state) of
        Inl e \<Rightarrow> (Inl e, repo1)
      | Inr orig_head_commit \<Rightarrow>
     (case git_reset repo1 orig_head_commit signature of
        (Inl e, repo2) \<Rightarrow> (Inl e, repo2)
      | (Inr _, repo2) \<Rightarrow> rebase_cleanup repo2 state)))"

definition git_rebase_abort :: "repository \<Rightarrow> git_signature \<Rightarrow> (error + unit) \<times> repository" where
  "git_rebase_abort repo signature =
     (case rebase_state repo of
        Inl e \<Rightarrow> (Inl e, repo)
      | Inr state \<Rightarrow> rebase_abort_loaded repo state signature)"

definition rebase_copy_note ::
  "repository \<Rightarrow> oid \<Rightarrow> oid \<Rightarrow> git_signature \<Rightarrow> string \<Rightarrow> (error + unit) \<times> repository" where
  "rebase_copy_note repo from to committer notes_ref =
     (case git_note_read repo notes_ref from of
        Inl e \<Rightarrow> (if fst e = GIT_ENOTFOUND then (Inr (), repo) else (Inl e, repo))
      | Inr (note_author, note_message) \<Rightarrow>
          git_note_create repo note_author committer notes_ref to note_message False)"

text \<open>
  The \<^verbatim>\<open>while (*pair_list)\<close> loop of \<^verbatim>\<open>rebase_copy_notes\<close>. \<open>next_line\<close> is the
  text up to the first newline (\<^verbatim>\<open>strchr(fromstr, '\n')\<close>), \<open>after_line\<close> what follows
  it; a line is cut at its first space in the same way.
\<close>

definition next_line :: "string \<Rightarrow> string" where
  "next_line s = takeWhile (\<lambda>c. c \<noteq> CHR 0x0A) s"

definition after_line :: "string \<Rightarrow> string" where
  "after_line s = tl (dropWhile (\<lambda>c. c \<noteq> CHR 0x0A) s)"

definition invalid_rewritten :: "nat \<Rightarrow> error" where
  "invalid_rewritten linenum =
     (GIT_ERROR, ''Invalid rewritten file at line '' @ fmt_d (int linenum))"

definition parse_pair :: "string \<Rightarrow> (oid \<times> oid) option" where
  "parse_pair line =
     (if CHR '' '' \<notin> set line then None
      else (let fromstr = takeWhile (\<lambda>c. c \<noteq> CHR '' '') line;
                tostr = tl (dropWhile (\<lambda>c. c \<noteq> CHR '' '') line)
            in if length fromstr \<noteq> GIT_OID_HEXSZ \<or> length tostr \<noteq> GIT_OID_HEXSZ then None
               else (case git_oid_fromstr fromstr of
                       Inl _ \<Rightarrow> None
                     | Inr from \<Rightarrow>
                         (case git_oid_fromstr tostr of
                            Inl _ \<Rightarrow> None
                          | Inr to \<Rightarrow> Some (from, to)))))"

function rebase_copy_notes_loop ::
  "repository \<Rightarrow> string \<Rightarrow> nat \<Rightarrow> git_signature \<Rightarrow> string \<Rightarrow> (error + unit) \<times> repository" where
  "rebase_copy_notes_loop repo pair_list linenum committer notes_ref =
     (if pair_list = [] then (Inr (), repo)
      else if CHR 0x0A \<notin> set pair_list then (Inl (invalid_rewritten linenum), repo)
      else (case parse_pair (next_line pair_list) of
              None \<Rightarrow> (Inl (invalid_rewritten linenum), repo)
            | Some (from, to) \<Rightarrow>
                (case rebase_copy_note repo from to committer notes_ref of
                   (Inl e, repo') \<Rightarrow> (Inl e, repo')
                 | (Inr _, repo') \<Rightarrow>
                     rebase_copy_notes_loop repo' (after_line pair_list) (linenum + 1)
                       committer notes_ref)))"
  by pat_completeness auto

termination rebase_copy_notes_loop
proof (relation "measure (\<lambda>(repo, pair_list, linenum, committer, notes_ref). length pair_list)")
  show "wf (measure (\<lambda>(repo, pair_list, linenum, committer, notes_ref). length pair_list))"
    by simp
next
  fix repo :: repository and pair_list :: string and linenum :: nat
    and committer :: git_signature and notes_ref :: string
    and x2 :: "oid \<times> oid" and x y :: oid and xa :: "(error + unit) \<times> repository"
    and xb :: "error + unit" and yb :: repository and b :: unit
  assume "\<not> CHR 0x0A \<notin> set pair_list"
  then have ne: "dropWhile (\<lambda>c. c \<noteq> CHR 0x0A) pair_list \<noteq> []"
    by (simp add: dropWhile_eq_Nil_conv)
  have "length (dropWhile (\<lambda>c. c \<noteq> CHR 0x0A) pair_list) \<le> length pair_list"
    by (rule length_dropWhile_le)
  with ne have "length (after_line pair_list) < length pair_list"
    unfolding after_line_def by (cases "dropWhile (\<lambda>c. c \<noteq> CHR 0x0A) pair_list") auto
  then show "((yb, after_line pair_list, linenum + 1, committer, notes_ref),
              repo, pair_list, linenum, committer, notes_ref)
             \<in> measure (\<lambda>(repo, pair_list, linenum, committer, notes_ref). length pair_list)"
    by simp
qed

declare rebase_copy_notes_loop.simps [simp del]

definition rebase_copy_notes ::
  "repository \<Rightarrow> git_rebase_state \<Rightarrow> git_signature \<Rightarrow> git_rebase_options
     \<Rightarrow> (error + unit) \<times> repository" where
  "rebase_copy_notes repo state committer opts =
     (case rewrite_notes_ref opts of
        None \<Rightarrow> (Inr (), repo)
      | Some notes_ref \<Rightarrow>
     (case state_path state of
        None \<Rightarrow> (Inl (GIT_ABORT, ''state_path is NULL''), repo)
      | Some d \<Rightarrow>
     (case git_futils_readbuffer repo d REWRITTEN_FILE of
        Inl e \<Rightarrow> (Inl e, repo)
      | Inr rewritten \<Rightarrow> rebase_copy_notes_loop repo rewritten 1 committer notes_ref)))"

text \<open>
  The reflog messages of \<^verbatim>\<open>git_rebase_finish\<close> print \<open>orig_head_name\<close> with
  \<^verbatim>\<open>"%s"\<close>; for a \<^verbatim>\<open>NULL\<close> name the text \<^verbatim>\<open>(null)\<close> stands in.
\<close>

definition fmt_s :: "string option \<Rightarrow> string" where
  "fmt_s s = (case s of None \<Rightarrow> ''(null)'' | Some t \<Rightarrow> t)"

text \<open>The body of \<^verbatim>\<open>git_rebase_finish\<close> once the options and the state are loaded.\<close>

definition rebase_finish_loaded ::
  "repository \<Rightarrow> git_rebase_state \<Rightarrow> git_signature \<Rightarrow> git_rebase_options
     \<Rightarrow> (error + unit) \<times> repository" where
  "rebase_finish_loaded repo state signature opts =
     (case git_repository_head_commit repo of
        Inl e \<Rightarrow> (Inl e, repo)
      | Inr terminal_commit \<Rightarrow>
     (case git_reference_create_matching repo (orig_head_name state)
             (commit_id terminal_commit) True (orig_head_id state) signature
             (''rebase finished: '' @ fmt_s (orig_head_name state) @ '' onto '' @
              take GIT_OID_HEXSZ (onto_id state)) of
        (Inl e, repo1) \<Rightarrow> (Inl e, repo1)
      | (Inr _, repo1) \<Rightarrow>
     (case git_reference_symbolic_create repo1 (Some GIT_HEAD_FILE) (orig_head_name state) True
             signature (''rebase finished: returning to '' @ fmt_s (orig_head_name state)) of
        (Inl e, repo2) \<Rightarrow> (Inl e, repo2)
      | (Inr _, repo2) \<Rightarrow>
     (case rebase_copy_notes repo2 state signature opts of
        (Inl e, repo3) \<Rightarrow> (Inl e, repo3)
      | (Inr _, repo3) \<Rightarrow> rebase_cleanup repo3 state))))"

definition git_rebase_finish ::
  "repository \<Rightarrow> git_signature \<Rightarrow> git_rebase_options option \<Rightarrow> (error + unit) \<times> repository" where
  "git_rebase_finish repo signature given_opts =
     (case rebase_normalize_opts repo given_opts of
        Inl e \<Rightarrow> (Inl e, repo)
      | Inr opts \<Rightarrow>
     (case rebase_state repo of
        Inl e \<Rightarrow> (Inl e, repo)
      | Inr state \<Rightarrow> rebase_finish_loaded repo state signature opts))"

subsection \<open>Notions used to state the properties\<close>

text \<open>
  \<open>merge_file\<close> reads a file of the merge state directory (\<open>None\<close> when the
  directory or the file is missing). \<open>non_merge\<close> is the test of the loop of
  \<^verbatim>\<open>rebase_setup_merge\<close>, negated; \<open>rebase_walk\<close> is the walk that function configures.
  \<open>parents_first\<close> says that a list of commits is in a topological order with the
  oldest first: no commit is listed before one of its parents.
\<close>

definition merge_file :: "repository \<Rightarrow> state_file \<Rightarrow> string option" where
  "merge_file repo f = (case dirs repo REBASE_MERGE_DIR of None \<Rightarrow> None | Some fs \<Rightarrow> fs f)"

definition non_merge :: "repository \<Rightarrow> oid \<Rightarrow> bool" where
  "non_merge repo i = (length (parents_of repo i) \<le> 1)"

definition rebase_walk :: "oid \<Rightarrow> oid \<Rightarrow> git_revwalk" where
  "rebase_walk branch_id upstream_id =
     \<lparr>pushed = [branch_id], hidden = [upstream_id], sorting = {GIT_SORT_REVERSE, GIT_SORT_TIME}\<rparr>"


definition is_note_event :: "event \<Rightarrow> bool" where
  "is_note_event ev = (case ev of EvNote _ _ \<Rightarrow> True | _ \<Rightarrow> False)"

subsection \<open>Example repositories\<close>

text \<open>
  A small history: \<open>U\<close> is the upstream tip; \<open>X\<close> is a child of \<open>U\<close>; \<open>P1\<close> and
  \<open>P2\<close> are children of \<open>X\<close>; \<open>T\<close>, the tip of the branch \<^verbatim>\<open>topic\<close>, merges \<open>P1\<close> and
  \<open>P2\<close>. The commit time of \<open>P1\<close> is earlier than that of its parent \<open>X\<close>.
\<close>

definition oid_U :: oid where "oid_U = ''0000000000000000000000000000000000000000''"
definition oid_X :: oid where "oid_X = ''1111111111111111111111111111111111111111''"
definition oid_P1 :: oid where "oid_P1 = ''2222222222222222222222222222222222222222''"
definition oid_P2 :: oid where "oid_P2 = ''3333333333333333333333333333333333333333''"
definition oid_T :: oid where "oid_T = ''4444444444444444444444444444444444444444''"
definition oid_N :: oid where "oid_N = ''ffffffffffffffffffffffffffffffffffffffff''"

definition ex_sig :: git_signature where
  "ex_sig = \<lparr>sig_name = ''A U Thor'', sig_email = ''author@example.com'', sig_when = 20\<rparr>"

definition ex_commit :: "oid \<Rightarrow> oid list \<Rightarrow> tree \<Rightarrow> int \<Rightarrow> git_commit" where
  "ex_commit i ps t tm =
     \<lparr>commit_id = i, commit_parents = ps, commit_tree = t, commit_time = tm,
      commit_author = ex_sig, commit_committer = ex_sig,
      commit_message_encoding = Some ''ISO-8859-1'', commit_message = ''subject''\<rparr>"

definition ex_pick :: git_commit where
  "ex_pick = ex_commit oid_P1 [oid_X] [(''f'', ''1''), (''g'', ''1'')] 3"

definition ex_repo :: repository where
  "ex_repo =
     \<lparr>is_bare = False, dirs = Map.empty, ORIG_HEAD = None,
      HEAD = Some (Symbolic ''refs/heads/topic''),
      refs = [''refs/heads/topic'' \<mapsto> oid_T, ''refs/heads/master'' \<mapsto> oid_U],
      odb = [ex_commit oid_U [] [(''f'', ''0'')] 0,
             ex_commit oid_X [oid_U] [(''f'', ''1'')] 4,
             ex_pick,
             ex_commit oid_P2 [oid_X] [(''f'', ''1''), (''h'', ''1'')] 5,
             ex_commit oid_T [oid_P1, oid_P2] [(''f'', ''1''), (''g'', ''1''), (''h'', ''1'')] 10],
      odb_hash = (\<lambda>c. oid_N),
      index = \<lparr>entries = [(''f'', ''1''), (''g'', ''1''), (''h'', ''1'')], conflicts = []\<rparr>,
      workdir = [(''f'', ''1''), (''g'', ''1''), (''h'', ''1'')],
      note_db = Map.empty, config = Map.empty, faults = {}, trace = []\<rparr>"

definition ex_branch :: git_merge_head where
  "ex_branch = \<lparr>ref_name = Some ''refs/heads/topic'', oid = oid_T, oid_str = oid_T\<rparr>"

definition ex_upstream :: git_merge_head where
  "ex_upstream = \<lparr>ref_name = Some ''refs/heads/master'', oid = oid_U, oid_str = oid_U\<rparr>"

text \<open>
  The state directory after \<^verbatim>\<open>git_rebase\<close> on the example and one
  \<^verbatim>\<open>git_rebase_next\<close>; \<open>head_name\<close> is the content of \<^verbatim>\<open>head-name\<close>.
\<close>

definition ex_state_files :: "string \<Rightarrow> state_file \<rightharpoonup> string" where
  "ex_state_files head_name =
     [HEAD_NAME_FILE \<mapsto> head_name @ [CHR 0x0A],
      ONTO_FILE \<mapsto> oid_U @ [CHR 0x0A],
      ORIG_HEAD_FILE \<mapsto> oid_T @ [CHR 0x0A],
      QUIET_FILE \<mapsto> [CHR 0x0A],
      CMT_FILE 1 \<mapsto> oid_P1 @ [CHR 0x0A],
      CMT_FILE 2 \<mapsto> oid_X @ [CHR 0x0A],
      CMT_FILE 3 \<mapsto> oid_P2 @ [CHR 0x0A],
      END_FILE \<mapsto> ''3'' @ [CHR 0x0A],
      ONTO_NAME_FILE \<mapsto> ''master'' @ [CHR 0x0A],
      MSGNUM_FILE \<mapsto> ''1'' @ [CHR 0x0A],
      CURRENT_FILE \<mapsto> oid_P1 @ [CHR 0x0A]]"

definition ex_picked :: "string \<Rightarrow> repository" where
  "ex_picked head_name =
     ex_repo\<lparr>dirs := [REBASE_MERGE_DIR \<mapsto> ex_state_files head_name],
             ORIG_HEAD := Some oid_T, HEAD := Some (Direct oid_U),
             index := \<lparr>entries = [(''f'', ''0''), (''g'', ''1'')], conflicts = []\<rparr>,
             workdir := [(''f'', ''0''), (''g'', ''1'')]\<rparr>"

definition ex_state :: "string \<Rightarrow> git_rebase_state" where
  "ex_state head_name =
     \<lparr>rtype = GIT_REBASE_TYPE_MERGE, state_path = Some REBASE_MERGE_DIR,
      head_detached = (head_name = ORIG_DETACHED_HEAD),
      orig_head_name = (if head_name = ORIG_DETACHED_HEAD then None else Some head_name),
      orig_head_id = oid_T, onto_id = oid_U,
      merge = \<lparr>msgnum = 1, merge_end = 3, onto_name = Some ''master'', current = Some ex_pick\<rparr>\<rparr>"

definition ex_topic :: string where
  "ex_topic = ''refs/heads/topic''"

text \<open>Variants: nothing picked yet; a conflicted index; an index equal to the tree of \<open>HEAD\<close>.\<close>

definition ex_unpicked :: repository where
  "ex_unpicked =
     (ex_picked ex_topic)\<lparr>dirs := [REBASE_MERGE_DIR \<mapsto>
        (ex_state_files ex_topic)(MSGNUM_FILE := None, CURRENT_FILE := None)]\<rparr>"

definition ex_conflicted :: repository where
  "ex_conflicted =
     (ex_picked ex_topic)\<lparr>index := \<lparr>entries = [(''g'', ''1'')], conflicts = [''f'']\<rparr>\<rparr>"

definition ex_applied :: repository where
  "ex_applied = (ex_picked ex_topic)\<lparr>index := \<lparr>entries = [(''f'', ''0'')], conflicts = []\<rparr>\<rparr>"

text \<open>Variants: an apply-flavor directory; a merge directory without any file.\<close>

definition ex_apply :: repository where
  "ex_apply = (ex_picked ex_topic)\<lparr>dirs := [REBASE_APPLY_DIR \<mapsto> ex_state_files ex_topic]\<rparr>"

definition ex_empty_dir :: repository where
  "ex_empty_dir = ex_repo\<lparr>dirs := [REBASE_MERGE_DIR \<mapsto> Map.empty]\<rparr>"

text \<open>Variants: a rewritten file that is not terminated by a newline, with notes to rewrite.\<close>

definition ex_notes_opts :: git_rebase_options where
  "ex_notes_opts = \<lparr>version = 1, quiet = False, rewrite_notes_ref = Some ''refs/notes/commits''\<rparr>"

definition ex_malformed :: repository where
  "ex_malformed =
     (ex_picked ex_topic)\<lparr>dirs := [REBASE_MERGE_DIR \<mapsto>
        (ex_state_files ex_topic)(REWRITTEN_FILE \<mapsto> oid_P1 @ '' '' @ oid_N)]\<rparr>"

definition ex_finish_msg1 :: string where
  "ex_finish_msg1 = ''rebase finished: '' @ ex_topic @ '' onto '' @ take GIT_OID_HEXSZ oid_U"

definition ex_finish_msg2 :: string where
  "ex_finish_msg2 = ''rebase finished: returning to '' @ ex_topic"

definition ex_malformed1 :: repository where
  "ex_malformed1 =
     snd (git_reference_create_matching ex_malformed (Some ex_topic) oid_U True oid_T ex_sig
            ex_finish_msg1)"

definition ex_malformed2 :: repository where
  "ex_malformed2 =
     snd (git_reference_symbolic_create ex_malformed1 (Some GIT_HEAD_FILE) (Some ex_topic) True
            ex_sig ex_finish_msg2)"

text \<open>The results of the operations on the examples.\<close>

definition ex_started :: repository where
  "ex_started = snd (git_rebase ex_repo ex_branch (Some ex_upstream) None ex_sig None)"

definition ex_checkout_fails :: repository where
  "ex_checkout_fails = ex_repo\<lparr>faults := {OP_CHECKOUT}\<rparr>"

definition ex_next :: repository where
  "ex_next = snd (git_rebase_next (ex_picked ex_topic) None)"

definition ex_committed :: repository where
  "ex_committed = snd (git_rebase_commit (ex_picked ex_topic) None ex_sig None None)"

definition ex_reworded :: repository where
  "ex_reworded =
     snd (git_rebase_commit (ex_picked ex_topic) None ex_sig None (Some ''reworded''))"

text \<open>Variants for the preconditions of \<^verbatim>\<open>git_rebase\<close>.\<close>

definition ex_bare :: repository where
  "ex_bare = ex_repo\<lparr>is_bare := True\<rparr>"

definition ex_dirty_index :: repository where
  "ex_dirty_index =
     ex_repo\<lparr>index := \<lparr>entries = [(''f'', ''2''), (''g'', ''1''), (''h'', ''1'')], conflicts = []\<rparr>\<rparr>"

definition ex_dirty_workdir :: repository where
  "ex_dirty_workdir = ex_repo\<lparr>workdir := [(''f'', ''1''), (''g'', ''1'')]\<rparr>"

text \<open>The steps of \<^verbatim>\<open>git_rebase\<close> when the checkout fails, and of the failing finish.\<close>

definition ex_setup_done :: repository where
  "ex_setup_done =
     snd (rebase_setup ex_checkout_fails ex_branch (Some ex_upstream) ex_upstream
            GIT_REBASE_OPTIONS_INIT)"

definition ex_head_moved :: repository where
  "ex_head_moved =
     snd (git_reference_create ex_setup_done (Some GIT_HEAD_FILE) oid_U True ex_sig
            (''rebase: checkout '' @ rebase_onto_name ex_upstream))"

definition ex_malformed3 :: repository where
  "ex_malformed3 = snd (rebase_copy_notes ex_malformed2 (ex_state ex_topic) ex_sig ex_notes_opts)"

text \<open>
  A linear history, as in scenario S1 of the specification: \<^verbatim>\<open>master\<close> is \<open>A\<close>,
  \<open>B\<close>; \<^verbatim>\<open>topic\<close> is \<open>A\<close>, \<open>X\<close>, \<open>Y\<close>, \<open>Z\<close>. The commit times of \<open>X\<close>, \<open>Y\<close>
  and \<open>Z\<close> are parameters.
\<close>

definition oid_A :: oid where "oid_A = ''aaaaaaaaaaaaaaaaaaaaaaaaaaaaaaaaaaaaaaaa''"
definition oid_B :: oid where "oid_B = ''bbbbbbbbbbbbbbbbbbbbbbbbbbbbbbbbbbbbbbbb''"
definition oid_Y :: oid where "oid_Y = ''5555555555555555555555555555555555555555''"
definition oid_Z :: oid where "oid_Z = ''6666666666666666666666666666666666666666''"

definition ex_linear :: "int \<Rightarrow> int \<Rightarrow> int \<Rightarrow> repository" where
  "ex_linear tx ty tz =
     ex_repo\<lparr>refs := [''refs/heads/topic'' \<mapsto> oid_Z, ''refs/heads/master'' \<mapsto> oid_B],
              odb := [ex_commit oid_A [] [(''f'', ''0'')] 1,
                      ex_commit oid_B [oid_A] [(''e'', ''1''), (''f'', ''0'')] 2,
                      ex_commit oid_X [oid_A] [(''f'', ''1'')] tx,
                      ex_commit oid_Y [oid_X] [(''f'', ''1''), (''g'', ''1'')] ty,
                      ex_commit oid_Z [oid_Y] [(''f'', ''1''), (''g'', ''1''), (''h'', ''1'')] tz]\<rparr>"

definition ex_linear_branch :: git_merge_head where
  "ex_linear_branch = \<lparr>ref_name = Some ''refs/heads/topic'', oid = oid_Z, oid_str = oid_Z\<rparr>"

definition ex_linear_upstream :: git_merge_head where
  "ex_linear_upstream = \<lparr>ref_name = Some ''refs/heads/master'', oid = oid_B, oid_str = oid_B\<rparr>"

definition ex_linear_started :: "int \<Rightarrow> int \<Rightarrow> int \<Rightarrow> repository" where
  "ex_linear_started tx ty tz =
     snd (git_rebase (ex_linear tx ty tz) ex_linear_branch (Some ex_linear_upstream)
            (Some ex_linear_upstream) ex_sig None)"

section \<open>Properties\<close>

subsection \<open>Effects of the collaborators and of the helpers\<close>

lemma find_append_fresh:
  "find P xs = None \<Longrightarrow> find P (xs @ ys) = find P ys"
  by (induction xs) (auto split: if_splits)

lemma rebase_state_loaded:
  assumes "rebase_state repo = Inr state"
  shows "rtype state = GIT_REBASE_TYPE_MERGE"
    and "state_path state = Some REBASE_MERGE_DIR"
    and "git_path_isdir repo REBASE_MERGE_DIR"
    and "\<not> git_path_isdir repo REBASE_APPLY_DIR"
    and "head_detached state \<longleftrightarrow> orig_head_name state = None"
  using assms
  by (auto simp: rebase_state_def rebase_state_type_def rebase_state_merge_def
      read_msgnum_def read_current_def GIT_REBASE_STATE_INIT_def Let_def
      split: if_splits sum.splits)

lemma rebase_state_none:
  "\<not> git_path_isdir repo REBASE_APPLY_DIR \<Longrightarrow> \<not> git_path_isdir repo REBASE_MERGE_DIR \<Longrightarrow>
   rebase_state repo = Inl (GIT_ENOTFOUND, ''There is no rebase in progress'')"
  by (simp add: rebase_state_def rebase_state_type_def)

lemma rebase_setupfile_Inl:
  "rebase_setupfile repo f fl c = (Inl e, repo') \<Longrightarrow> repo' = repo"
  by (cases "dirs repo REBASE_MERGE_DIR")
     (simp_all add: rebase_setupfile_def git_futils_writebuffer_def split: if_splits)

lemma rebase_setupfile_Inr:
  "rebase_setupfile repo f fl c = (Inr u, repo') \<Longrightarrow>
   dirs repo REBASE_MERGE_DIR \<noteq> None \<and>
   repo' = repo\<lparr>dirs := (dirs repo)(REBASE_MERGE_DIR \<mapsto>
              (the (dirs repo REBASE_MERGE_DIR))(f \<mapsto>
                 (if O_APPEND \<in> fl
                  then (case the (dirs repo REBASE_MERGE_DIR) f of None \<Rightarrow> [] | Some old \<Rightarrow> old) @ c
                  else c))),
            trace := trace repo @ [if O_APPEND \<in> fl then EvAppend f c else EvWrite f c]\<rparr>"
  by (cases "dirs repo REBASE_MERGE_DIR")
     (simp_all add: rebase_setupfile_def git_futils_writebuffer_def split: if_splits)

lemma rebase_setupfile_trace:
  "rebase_setupfile repo f fl c = (res, repo') \<Longrightarrow>
   (\<forall>i. git_commit_lookup repo' i = git_commit_lookup repo i) \<and>
   trace repo' = trace repo @
     (case res of Inl _ \<Rightarrow> [] | Inr _ \<Rightarrow> [if O_APPEND \<in> fl then EvAppend f c else EvWrite f c])"
  by (cases res) (auto dest!: rebase_setupfile_Inl rebase_setupfile_Inr simp: git_commit_lookup_def)

lemma git_checkout_index_trace:
  "git_checkout_index repo idx co = (res, repo') \<Longrightarrow>
   trace repo' = trace repo @ (case res of Inl _ \<Rightarrow> [] | Inr _ \<Rightarrow> [EvCheckout])"
  by (auto simp: git_checkout_index_def split: if_splits)

lemma git_commit_create_Inr:
  "git_commit_create repo a c enc m t ps = (Inr new_id, repo') \<Longrightarrow>
   git_commit_lookup repo new_id = Inl e0 \<Longrightarrow>
   \<exists>c'. git_commit_lookup repo' new_id = Inr c' \<and>
      commit_author c' = a \<and> commit_message c' = m \<and> commit_message_encoding c' = enc"
  by (auto simp: git_commit_create_def Let_def git_commit_lookup_def find_append_fresh
      split: if_splits option.splits)

lemma git_commit_create_trace:
  "git_commit_create repo a c enc m t ps = (res, repo') \<Longrightarrow>
   trace repo' = trace repo @ (case res of Inl _ \<Rightarrow> [] | Inr i \<Rightarrow> [EvCommitCreate i]) \<and>
   (\<forall>i. res = Inr i \<longrightarrow> (\<exists>c'. git_commit_lookup repo' i = Inr c'))"
  by (auto simp: git_commit_create_def Let_def git_commit_lookup_def find_append_fresh
      split: if_splits option.splits)

lemma update_for_commit_trace:
  "git_reference__update_for_commit repo n i sg m = (res, repo') \<Longrightarrow>
   (\<forall>j. git_commit_lookup repo' j = git_commit_lookup repo j) \<and>
   (\<exists>nm. trace repo' = trace repo @ (case res of Inl _ \<Rightarrow> [] | Inr _ \<Rightarrow> [EvRef nm (Direct i) m]))"
  by (auto simp: git_reference__update_for_commit_def set_reference_def git_commit_lookup_def
      split: if_splits option.splits head_target.splits)

lemma rebase_commit_merge_InrE:
  assumes "rebase_commit_merge repo state author committer message_encoding message = (Inr new_id, repo')"
  obtains cur t head_commit repo1 repo2 where
    "current (merge state) = Some cur"
    "git_commit_create repo
       (case author of None \<Rightarrow> commit_author cur | Some a \<Rightarrow> a) committer
       (case message of None \<Rightarrow> commit_message_encoding cur | Some _ \<Rightarrow> message_encoding)
       (case message of None \<Rightarrow> commit_message cur | Some m \<Rightarrow> m) t [head_commit] = (Inr new_id, repo1)"
    "git_reference__update_for_commit repo1 ''HEAD'' new_id committer ''rebase'' = (Inr (), repo2)"
    "rebase_setupfile repo2 REWRITTEN_FILE {O_CREAT, O_WRONLY, O_APPEND}
       (take GIT_OID_HEXSZ (commit_id cur) @ '' '' @ take GIT_OID_HEXSZ new_id @ [CHR 0x0A]) = (Inr (), repo')"
  using assms unfolding rebase_commit_merge_def
  by (auto split: if_splits sum.splits option.splits prod.splits)

lemma trace_next_merge:
  assumes "rebase_next_merge repo state co = (res, repo')"
  shows "\<exists>evs. trace repo' = trace repo @ evs \<and>
           (EvCheckout \<in> set evs \<longrightarrow>
              (\<exists>m c. evs = [EvWrite MSGNUM_FILE m, EvWrite CURRENT_FILE c, EvCheckout]))"
  using assms unfolding rebase_next_merge_def
  by (auto split: if_splits sum.splits option.splits prod.splits
      dest!: rebase_setupfile_trace git_checkout_index_trace)

lemma trace_commit_merge:
  assumes "rebase_commit_merge repo state author committer message_encoding message = (res, repo')"
  shows "\<exists>evs. trace repo' = trace repo @ evs \<and>
           (\<forall>l. EvAppend REWRITTEN_FILE l \<in> set evs \<longrightarrow>
              (\<exists>new_id nm c old_id.
                 evs = [EvCommitCreate new_id, EvRef nm (Direct new_id) ''rebase'',
                        EvAppend REWRITTEN_FILE l]
                 \<and> git_commit_lookup repo' new_id = Inr c
                 \<and> l = take GIT_OID_HEXSZ old_id @ '' '' @ take GIT_OID_HEXSZ new_id @ [CHR 0x0A]))"
  using assms unfolding rebase_commit_merge_def
  by (auto split: if_splits sum.splits option.splits prod.splits
      dest!: rebase_setupfile_trace git_commit_create_trace update_for_commit_trace)

lemma rebase_copy_note_frame:
  "rebase_copy_note repo from to committer notes_ref = (res, repo') \<Longrightarrow>
   dirs repo' = dirs repo \<and> refs repo' = refs repo \<and> HEAD repo' = HEAD repo \<and>
   (\<exists>evs. trace repo' = trace repo @ evs \<and> list_all is_note_event evs)"
  by (auto simp: rebase_copy_note_def git_note_create_def is_note_event_def split: sum.splits if_splits prod.splits)

lemma rebase_copy_notes_loop_frame:
  "rebase_copy_notes_loop repo pair_list linenum committer notes_ref = (res, repo') \<Longrightarrow>
   dirs repo' = dirs repo \<and> refs repo' = refs repo \<and> HEAD repo' = HEAD repo \<and>
   (\<exists>evs. trace repo' = trace repo @ evs \<and> list_all is_note_event evs)"
proof (induction repo pair_list linenum committer notes_ref arbitrary: res repo'
    rule: rebase_copy_notes_loop.induct)
  case (1 repo pair_list linenum committer notes_ref)
  show ?case
  proof (cases "pair_list = [] \<or> CHR 0x0A \<notin> set pair_list \<or> parse_pair (next_line pair_list) = None")
    case True
    with "1.prems" show ?thesis
      by (subst (asm) rebase_copy_notes_loop.simps) (auto split: if_splits)
  next
    case False
    then obtain src dst where p: "parse_pair (next_line pair_list) = Some (src, dst)"
      and ne: "pair_list \<noteq> []" and nl: "\<not> CHR 0x0A \<notin> set pair_list"
      by auto
    obtain r1 repo1 where c: "rebase_copy_note repo src dst committer notes_ref = (r1, repo1)"
      by (cases "rebase_copy_note repo src dst committer notes_ref") auto
    note f1 = rebase_copy_note_frame [OF c]
    show ?thesis
    proof (cases r1)
      case (Inl e)
      with "1.prems" p ne nl c have "repo' = repo1"
        by (subst (asm) rebase_copy_notes_loop.simps) simp
      with f1 show ?thesis by simp
    next
      case (Inr u)
      with "1.prems" p ne nl c
      have rest: "rebase_copy_notes_loop repo1 (after_line pair_list) (linenum + 1) committer notes_ref
                  = (res, repo')"
        by (subst (asm) rebase_copy_notes_loop.simps) simp
      have "dirs repo' = dirs repo1 \<and> refs repo' = refs repo1 \<and> HEAD repo' = HEAD repo1 \<and>
            (\<exists>evs. trace repo' = trace repo1 @ evs \<and> list_all is_note_event evs)"
        using "1.IH" [OF ne nl p refl c [symmetric] Inr rest] .
      with f1 show ?thesis by auto
    qed
  qed
qed

lemma rebase_copy_notes_frame:
  "rebase_copy_notes repo state committer opts = (res, repo') \<Longrightarrow>
   dirs repo' = dirs repo \<and> refs repo' = refs repo \<and> HEAD repo' = HEAD repo \<and>
   (\<exists>evs. trace repo' = trace repo @ evs \<and> list_all is_note_event evs)"
  unfolding rebase_copy_notes_def
  by (auto split: option.splits sum.splits dest: rebase_copy_notes_loop_frame)

lemma rebase_setup_isdir:
  assumes "rebase_setup repo branch upstream onto opts = (Inr u, repo1)"
  shows "git_path_isdir repo1 REBASE_MERGE_DIR"
proof -
  from assms obtain repo6 where "rebase_setup_merge repo6 branch upstream onto opts = (Inr u, repo1)"
    unfolding rebase_setup_def rebase_setup_files_def
    by (auto split: prod.splits sum.splits)
  then obtain repo7 where
    "rebase_setupfile repo7 ONTO_NAME_FILE {} (rebase_onto_name onto @ [CHR 0x0A]) = (Inr u, repo1)"
    unfolding rebase_setup_merge_def by (auto split: prod.splits sum.splits)
  from rebase_setupfile_Inr [OF this] show ?thesis
    by (auto simp: git_path_isdir_def)
qed

lemma merge_file_setupfile:
  "rebase_setupfile repo f {} c = (Inr u, repo') \<Longrightarrow>
   merge_file repo' g = (if g = f then Some c else merge_file repo g) \<and>
   odb repo' = odb repo \<and> faults repo' = faults repo"
  by (drule rebase_setupfile_Inr) (auto simp: merge_file_def)

lemma odb_frame:
  assumes "odb repo' = odb repo"
  shows "git_commit_lookup repo' = git_commit_lookup repo"
    and "parents_of repo' = parents_of repo"
    and "time_of repo' = time_of repo"
    and "non_merge repo' = non_merge repo"
  using assms by (auto simp: git_commit_lookup_def parents_of_def time_of_def non_merge_def fun_eq_iff)

lemma ancestors_frame:
  "parents_of repo' = parents_of repo \<Longrightarrow> ancestors repo' n xs = ancestors repo n xs"
  by (induction n arbitrary: xs) simp_all

lemma topo_order_frame:
  "parents_of repo' = parents_of repo \<Longrightarrow> topo_order repo' pref n xs = topo_order repo pref n xs"
  by (induction n arbitrary: xs) (simp_all split: list.splits)

lemma newest_first_frame:
  "time_of repo' = time_of repo \<Longrightarrow> newest_first repo' = newest_first repo"
  by (simp add: newest_first_def fun_eq_iff)

lemma time_order_frame:
  "parents_of repo' = parents_of repo \<Longrightarrow> time_of repo' = time_of repo \<Longrightarrow>
   time_order repo' tips n xs ys = time_order repo tips n xs ys"
proof (induction n arbitrary: xs ys)
  case 0
  show ?case by simp
next
  case (Suc n)
  note nf = newest_first_frame [OF Suc.prems(2)]
  show ?case
    by (simp add: nf Suc.prems(1) Suc.IH [OF Suc.prems] split: list.splits)
qed

lemma git_revwalk_all_frame:
  assumes "odb repo' = odb repo" and "faults repo' = faults repo"
  shows "git_revwalk_all repo' walk = git_revwalk_all repo walk"
proof -
  note f = odb_frame [OF assms(1)]
  have r: "reachable repo' = reachable repo"
    by (simp add: reachable_def fun_eq_iff ancestors_frame [OF f(2)] assms(1))
  have w: "walk_commits repo' walk = walk_commits repo walk"
    by (simp add: walk_commits_def r)
  show ?thesis
    by (simp add: git_revwalk_all_def w assms(2) topo_order_frame [OF f(2)]
        time_order_frame [OF f(2) f(3)] newest_first_frame [OF f(3)] Let_def)
qed

lemma rebase_setup_merge_loop_Inr:
  "rebase_setup_merge_loop repo ids cnt = (Inr cnt', repo') \<Longrightarrow>
   cnt' = cnt + int (length (filter (non_merge repo) ids)) \<and>
   odb repo' = odb repo \<and> faults repo' = faults repo \<and>
   (\<forall>f. merge_file repo' f =
      (case f of
         CMT_FILE n \<Rightarrow>
           (if cnt < n \<and> n \<le> cnt'
            then Some (take GIT_OID_HEXSZ (filter (non_merge repo) ids ! nat (n - cnt - 1)) @ [CHR 0x0A])
            else merge_file repo f)
       | _ \<Rightarrow> merge_file repo f))"
proof (induction ids arbitrary: repo cnt)
  case Nil
  then show ?case by (auto split: state_file.splits)
next
  case (Cons i ids)
  from Cons.prems obtain commit where l: "git_commit_lookup repo i = Inr commit"
    by (auto split: sum.splits)
  have p: "parents_of repo i = commit_parents commit" by (simp add: parents_of_def l)
  show ?case
  proof (cases "length (commit_parents commit) > 1")
    case True
    with Cons.prems l have "rebase_setup_merge_loop repo ids cnt = (Inr cnt', repo')" by simp
    note ih = Cons.IH [OF this]
    have "\<not> non_merge repo i" using True p by (simp add: non_merge_def)
    then have fl: "filter (non_merge repo) (i # ids) = filter (non_merge repo) ids" by simp
    show ?thesis unfolding fl using ih by blast
  next
    case False
    with Cons.prems l obtain repo1 where
      w: "rebase_setupfile repo (CMT_FILE (cnt + 1)) {} (take GIT_OID_HEXSZ i @ [CHR 0x0A]) = (Inr (), repo1)"
      and r: "rebase_setup_merge_loop repo1 ids (cnt + 1) = (Inr cnt', repo')"
      by (auto split: sum.splits prod.splits)
    note m = merge_file_setupfile [OF w]
    have o: "odb repo1 = odb repo" using m by simp
    note ih = Cons.IH [OF r, unfolded odb_frame(4) [OF o] o]
    have nm: "non_merge repo i" using False p by (simp add: non_merge_def)
    have cnt': "cnt' = cnt + 1 + int (length (filter (non_merge repo) ids))" using ih by simp
    have "merge_file repo' f =
      (case f of
         CMT_FILE n \<Rightarrow>
           (if cnt < n \<and> n \<le> cnt'
            then Some (take GIT_OID_HEXSZ (filter (non_merge repo) (i # ids) ! nat (n - cnt - 1)) @ [CHR 0x0A])
            else merge_file repo f)
       | _ \<Rightarrow> merge_file repo f)" for f
    proof (cases f)
      case (CMT_FILE n)
      consider "n \<le> cnt" | "n = cnt + 1" | "cnt + 1 < n"
        by linarith
      then show ?thesis
      proof cases
        case 1
        then show ?thesis using ih m CMT_FILE by simp
      next
        case 2
        then show ?thesis using ih m CMT_FILE nm cnt' by simp
      next
        case 3
        then have "nat (n - cnt - 1) = Suc (nat (n - (cnt + 1) - 1))" by simp
        then show ?thesis using 3 ih m CMT_FILE nm by simp
      qed
    qed (use ih m in simp_all)
    then show ?thesis using ih m nm by simp
  qed
qed

lemma rebase_setup_merge_Inr:
  assumes "rebase_setup_merge repo branch upstream onto opts = (Inr u, repo')"
    and "\<forall>n. merge_file repo (CMT_FILE n) = None"
  shows "\<exists>ids. git_revwalk_all repo
             (rebase_walk (oid branch) (oid (case upstream of None \<Rightarrow> onto | Some v \<Rightarrow> v))) = Inr ids
    \<and> (\<forall>n. merge_file repo' (CMT_FILE n) =
          (if 1 \<le> n \<and> n \<le> int (length (filter (non_merge repo) ids))
           then Some (take GIT_OID_HEXSZ (filter (non_merge repo) ids ! nat (n - 1)) @ [CHR 0x0A])
           else None))
    \<and> merge_file repo' END_FILE = Some (fmt_d (int (length (filter (non_merge repo) ids))) @ [CHR 0x0A])
    \<and> git_path_isdir repo' REBASE_MERGE_DIR"
proof -
  from assms(1) obtain walk1 walk2 ids cnt repo1 repo2 where
    w1: "git_revwalk_push repo git_revwalk_new (oid branch) = Inr walk1"
    and w2: "git_revwalk_hide repo walk1 (oid (case upstream of None \<Rightarrow> onto | Some v \<Rightarrow> v)) = Inr walk2"
    and w3: "git_revwalk_all repo (git_revwalk_sorting walk2 {GIT_SORT_REVERSE, GIT_SORT_TIME}) = Inr ids"
    and lp: "rebase_setup_merge_loop repo ids 0 = (Inr cnt, repo1)"
    and e: "rebase_setupfile repo1 END_FILE {} (fmt_d cnt @ [CHR 0x0A]) = (Inr (), repo2)"
    and n: "rebase_setupfile repo2 ONTO_NAME_FILE {} (rebase_onto_name onto @ [CHR 0x0A]) = (Inr u, repo')"
    unfolding rebase_setup_merge_def by (auto split: sum.splits prod.splits)
  have walk: "git_revwalk_sorting walk2 {GIT_SORT_REVERSE, GIT_SORT_TIME}
              = rebase_walk (oid branch) (oid (case upstream of None \<Rightarrow> onto | Some v \<Rightarrow> v))"
    using w1 w2
    by (auto simp: git_revwalk_push_def git_revwalk_hide_def git_revwalk_new_def
        git_revwalk_sorting_def rebase_walk_def split: sum.splits)
  note l = rebase_setup_merge_loop_Inr [OF lp]
  note me = merge_file_setupfile [OF e]
  note mn = merge_file_setupfile [OF n]
  have "git_path_isdir repo' REBASE_MERGE_DIR"
    using rebase_setupfile_Inr [OF n] by (auto simp: git_path_isdir_def)
  then show ?thesis
    using w3 [unfolded walk] l me mn assms(2) by auto
qed

lemma rebase_setup_files_Inr:
  assumes "rebase_setup_files repo branch upstream onto opts = (Inr u, repo')"
  obtains repo6 where "odb repo6 = odb repo" "faults repo6 = faults repo"
    "\<forall>n. merge_file repo6 (CMT_FILE n) = None"
    "rebase_setup_merge repo6 branch upstream onto opts = (Inr u, repo')"
proof -
  from assms obtain repo1 repo2 repo3 repo4 repo5 repo6 where
    mk: "p_mkdir repo REBASE_MERGE_DIR = (Inr (), repo1)"
    and oh: "git_repository__set_orig_head repo1 (oid branch) = (Inr (), repo2)"
    and f1: "rebase_setupfile repo2 HEAD_NAME_FILE {}
             ((case ref_name branch of Some n \<Rightarrow> n | None \<Rightarrow> ORIG_DETACHED_HEAD) @ [CHR 0x0A]) = (Inr (), repo3)"
    and f2: "rebase_setupfile repo3 ONTO_FILE {} (oid_str onto @ [CHR 0x0A]) = (Inr (), repo4)"
    and f3: "rebase_setupfile repo4 ORIG_HEAD_FILE {} (oid_str branch @ [CHR 0x0A]) = (Inr (), repo5)"
    and f4: "rebase_setupfile repo5 QUIET_FILE {}
             (if quiet opts then ''t'' @ [CHR 0x0A] else [CHR 0x0A]) = (Inr (), repo6)"
    and sm: "rebase_setup_merge repo6 branch upstream onto opts = (Inr u, repo')"
    unfolding rebase_setup_files_def by (auto split: sum.splits prod.splits)
  have 1: "odb repo1 = odb repo \<and> faults repo1 = faults repo \<and> (\<forall>f. merge_file repo1 f = None)"
    using mk by (auto simp: p_mkdir_def merge_file_def split: if_splits)
  have 2: "odb repo2 = odb repo1 \<and> faults repo2 = faults repo1 \<and> (\<forall>f. merge_file repo2 f = merge_file repo1 f)"
    using oh by (auto simp: git_repository__set_orig_head_def merge_file_def split: if_splits)
  note m = merge_file_setupfile [OF f1] merge_file_setupfile [OF f2]
    merge_file_setupfile [OF f3] merge_file_setupfile [OF f4]
  have "odb repo6 = odb repo" "faults repo6 = faults repo"
    "\<forall>n. merge_file repo6 (CMT_FILE n) = None"
    using 1 2 m by simp_all
  then show ?thesis using sm that by blast
qed

lemma git_rebase_plan:
  assumes "git_rebase repo branch upstream onto signature given_opts = (Inr u, repo')"
  shows "\<exists>onto' ids.
      (case onto of None \<Rightarrow> upstream | Some given_onto \<Rightarrow> Some given_onto) = Some onto'
    \<and> git_revwalk_all repo
         (rebase_walk (oid branch) (oid (case upstream of None \<Rightarrow> onto' | Some v \<Rightarrow> v))) = Inr ids
    \<and> (\<forall>n. merge_file repo' (CMT_FILE n) =
          (if 1 \<le> n \<and> n \<le> int (length (filter (non_merge repo) ids))
           then Some (take GIT_OID_HEXSZ (filter (non_merge repo) ids ! nat (n - 1)) @ [CHR 0x0A])
           else None))
    \<and> merge_file repo' END_FILE = Some (fmt_d (int (length (filter (non_merge repo) ids))) @ [CHR 0x0A])"
proof -
  from assms obtain onto' opts repo1 repo2 where
    o: "(case onto of None \<Rightarrow> upstream | Some given_onto \<Rightarrow> Some given_onto) = Some onto'"
    and s: "rebase_setup repo branch upstream onto' opts = (Inr (), repo1)"
    and rc: "git_reference_create repo1 (Some GIT_HEAD_FILE) (oid onto') True signature
           (''rebase: checkout '' @ rebase_onto_name onto') = (Inr (), repo2)"
    and co: "git_checkout_head repo2 (GIT_CHECKOUT_OPTIONS_INIT\<lparr>checkout_strategy := GIT_CHECKOUT_FORCE\<rparr>)
           = (Inr u, repo')"
    unfolding git_rebase_def by (auto split: option.splits if_splits sum.splits prod.splits)
  from s have "rebase_setup_files repo branch upstream onto' opts = (Inr (), repo1)"
    unfolding rebase_setup_def by (auto split: sum.splits prod.splits)
  then obtain repo6 where r6: "odb repo6 = odb repo" "faults repo6 = faults repo"
    "\<forall>n. merge_file repo6 (CMT_FILE n) = None"
    "rebase_setup_merge repo6 branch upstream onto' opts = (Inr (), repo1)"
    by (rule rebase_setup_files_Inr)
  from rebase_setup_merge_Inr [OF r6(4) r6(3)] obtain ids where
    i: "git_revwalk_all repo6
          (rebase_walk (oid branch) (oid (case upstream of None \<Rightarrow> onto' | Some v \<Rightarrow> v))) = Inr ids"
    "\<forall>n. merge_file repo1 (CMT_FILE n) =
          (if 1 \<le> n \<and> n \<le> int (length (filter (non_merge repo6) ids))
           then Some (take GIT_OID_HEXSZ (filter (non_merge repo6) ids ! nat (n - 1)) @ [CHR 0x0A])
           else None)"
    "merge_file repo1 END_FILE = Some (fmt_d (int (length (filter (non_merge repo6) ids))) @ [CHR 0x0A])"
    by blast
  have d2: "dirs repo2 = dirs repo1" using rc
    by (auto simp: git_reference_create_def set_reference_def GIT_HEAD_FILE_def
        split: if_splits sum.splits)
  have d3: "dirs repo' = dirs repo2" using co
    by (auto simp: git_checkout_head_def split: if_splits sum.splits)
  have mf: "merge_file repo' = merge_file repo1"
    by (simp add: merge_file_def fun_eq_iff d2 d3)
  show ?thesis
    using o i unfolding mf git_revwalk_all_frame [OF r6(1,2)] odb_frame(4) [OF r6(1)]
    by blast
qed

subsection \<open>The revision walk\<close>

lemma set_ancestors_step:
  "set (remdups (xs @ concat (map (parents_of repo) xs))) = set xs \<union> parent_rel repo `` set xs"
  by (auto simp: parent_rel_def)

lemma ancestors_sound: "set (ancestors repo n xs) \<subseteq> (parent_rel repo)\<^sup>* `` set xs"
proof (induction n arbitrary: xs)
  case 0
  then show ?case by auto
next
  case (Suc n)
  have "set (ancestors repo (Suc n) xs)
        \<subseteq> (parent_rel repo)\<^sup>* `` (set xs \<union> parent_rel repo `` set xs)"
    using Suc [of "remdups (xs @ concat (map (parents_of repo) xs))"]
    by (simp only: ancestors.simps set_ancestors_step)
  also have "\<dots> \<subseteq> (parent_rel repo)\<^sup>* `` set xs"
    by (auto intro: converse_rtrancl_into_rtrancl)
  finally show ?case .
qed

lemma ancestors_relpow:
  "k \<le> n \<Longrightarrow> (parent_rel repo ^^ k) `` set xs \<subseteq> set (ancestors repo n xs)"
proof (induction n arbitrary: xs k)
  case 0
  then show ?case by simp
next
  case (Suc n)
  let ?ys = "remdups (xs @ concat (map (parents_of repo) xs))"
  show ?case
  proof (cases k)
    case 0
    have "set xs \<subseteq> set ?ys" by auto
    also have "\<dots> = (parent_rel repo ^^ 0) `` set ?ys" by simp
    also have "\<dots> \<subseteq> set (ancestors repo n ?ys)" by (rule Suc.IH) simp
    finally show ?thesis using 0 by simp
  next
    case (Suc k')
    have "(parent_rel repo ^^ Suc k') `` set xs = (parent_rel repo ^^ k') `` (parent_rel repo `` set xs)"
    proof (intro set_eqI iffI)
      fix i assume "i \<in> (parent_rel repo ^^ Suc k') `` set xs"
      then obtain t where t: "t \<in> set xs" and "(t, i) \<in> parent_rel repo ^^ Suc k'" by blast
      then obtain y where "(t, y) \<in> parent_rel repo" "(y, i) \<in> parent_rel repo ^^ k'"
        by (blast elim: relpow_Suc_E2)
      with t show "i \<in> (parent_rel repo ^^ k') `` (parent_rel repo `` set xs)" by blast
    next
      fix i assume "i \<in> (parent_rel repo ^^ k') `` (parent_rel repo `` set xs)"
      then obtain t y where t: "t \<in> set xs" and "(t, y) \<in> parent_rel repo"
        "(y, i) \<in> parent_rel repo ^^ k'" by blast
      then have "(t, i) \<in> parent_rel repo ^^ Suc k'" by (blast intro: relpow_Suc_I2)
      with t show "i \<in> (parent_rel repo ^^ Suc k') `` set xs" by blast
    qed
    also have "\<dots> \<subseteq> (parent_rel repo ^^ k') `` set ?ys"
      unfolding set_ancestors_step by blast
    also have "\<dots> \<subseteq> set (ancestors repo n ?ys)"
      using Suc.prems Suc by (intro Suc.IH) simp
    finally show ?thesis using Suc by simp
  qed
qed

lemma parent_rel_bound:
  "finite (parent_rel repo) \<and>
   card (parent_rel repo) \<le> length (concat (map commit_parents (odb repo)))"
proof -
  let ?edges = "concat (map (\<lambda>c. map (Pair (commit_id c)) (commit_parents c)) (odb repo))"
  have sub: "parent_rel repo \<subseteq> set ?edges"
  proof
    fix e assume "e \<in> parent_rel repo"
    then obtain c p where e: "e = (c, p)" and p: "p \<in> set (parents_of repo c)"
      by (auto simp: parent_rel_def)
    from p obtain x where f: "find (\<lambda>x. commit_id x = c) (odb repo) = Some x"
      and px: "p \<in> set (commit_parents x)"
      by (auto simp: parents_of_def git_commit_lookup_def split: option.splits)
    from f have "x \<in> set (odb repo)" "commit_id x = c"
      by (auto simp: find_Some_iff)
    with px e show "e \<in> set ?edges" by auto
  qed
  have len: "length ?edges = length (concat (map commit_parents (odb repo)))"
    by (induction "odb repo") (simp_all add: length_concat comp_def)
  have "card (parent_rel repo) \<le> card (set ?edges)"
    using sub by (intro card_mono) simp_all
  also have "\<dots> \<le> length ?edges" by (rule card_length)
  finally show ?thesis using sub len by (auto intro: finite_subset)
qed

lemma set_reachable: "set (reachable repo tips) = (parent_rel repo)\<^sup>* `` set tips"
proof
  show "set (reachable repo tips) \<subseteq> (parent_rel repo)\<^sup>* `` set tips"
    unfolding reachable_def using ancestors_sound [of repo _ "remdups tips"] by simp
next
  show "(parent_rel repo)\<^sup>* `` set tips \<subseteq> set (reachable repo tips)"
  proof
    fix i assume "i \<in> (parent_rel repo)\<^sup>* `` set tips"
    then obtain t where t: "t \<in> set tips" and r: "(t, i) \<in> (parent_rel repo)\<^sup>*" by auto
    from r obtain k where "(t, i) \<in> parent_rel repo ^^ k" by (auto dest: rtrancl_imp_relpow)
    with relpow_finite_bounded [of "parent_rel repo" k] parent_rel_bound [of repo]
    obtain m where m: "m \<le> card (parent_rel repo)" and "(t, i) \<in> parent_rel repo ^^ m"
      by auto
    with t have "i \<in> (parent_rel repo ^^ m) `` set (remdups tips)" by auto
    moreover have "m \<le> length (concat (map commit_parents (odb repo)))"
      using m parent_rel_bound [of repo] by simp
    ultimately show "i \<in> set (reachable repo tips)"
      unfolding reachable_def using ancestors_relpow by blast
  qed
qed

lemma distinct_ancestors: "distinct xs \<Longrightarrow> distinct (ancestors repo n xs)"
  by (induction n arbitrary: xs) simp_all

text \<open>
  The walk by commit time hands out every commit of the range exactly once: each commit
  of the range is connected to the pushed tip inside the range, so as long as commits
  remain one of them is pushed or is a parent of a commit handed out before.
\<close>

lemma time_order_eligible:
  assumes "(x, r) \<in> (parent_rel repo \<inter> S \<times> S)\<^sup>*"
    and "r \<in> set remaining"
    and "set remaining \<union> set handed = S"
    and "set remaining \<inter> set handed = {}"
    and "x \<in> set tips \<or> x \<in> set handed"
  shows "\<exists>c \<in> set remaining. c \<in> set tips \<or> (\<exists>d \<in> set handed. c \<in> set (parents_of repo d))"
  using assms(1,5)
proof (induction rule: converse_rtrancl_induct)
  case base
  with assms(2,4) show ?case by blast
next
  case (step x y)
  from step.hyps(1) have xy: "y \<in> set (parents_of repo x)" and xs: "x \<in> S" and ys: "y \<in> S"
    by (auto simp: parent_rel_def)
  show ?case
  proof (cases "x \<in> set remaining")
    case True
    with step.prems assms(4) show ?thesis by blast
  next
    case False
    with xs assms(3) have xh: "x \<in> set handed" by blast
    show ?thesis
    proof (cases "y \<in> set remaining")
      case True
      with xh xy show ?thesis by blast
    next
      case False
      with ys assms(3) have "y \<in> set handed" by blast
      then show ?thesis by (intro step.IH) simp
    qed
  qed
qed

lemma time_order_all:
  assumes "\<forall>r \<in> S. \<exists>t \<in> set tips. (t, r) \<in> (parent_rel repo \<inter> S \<times> S)\<^sup>*"
    and "distinct remaining"
    and "set remaining \<union> set handed = S"
    and "set remaining \<inter> set handed = {}"
    and "length remaining \<le> n"
  shows "set (time_order repo tips n remaining handed) = set remaining \<and>
         distinct (time_order repo tips n remaining handed)"
  using assms(2-5)
proof (induction n arbitrary: remaining handed)
  case 0
  then show ?case by simp
next
  case (Suc n)
  let ?el = "filter (\<lambda>c. c \<in> set tips \<or> list_ex (\<lambda>d. c \<in> set (parents_of repo d)) handed)
               (newest_first repo remaining)"
  show ?case
  proof (cases remaining)
    case Nil
    then show ?thesis by (simp add: newest_first_def)
  next
    case (Cons r rs)
    then have rin: "r \<in> set remaining" by simp
    with Suc.prems(2) have "r \<in> S" by blast
    with assms(1) obtain t where t: "t \<in> set tips" and p: "(t, r) \<in> (parent_rel repo \<inter> S \<times> S)\<^sup>*"
      by blast
    from time_order_eligible [OF p rin Suc.prems(2) Suc.prems(3)] t
    obtain c0 where "c0 \<in> set remaining"
      "c0 \<in> set tips \<or> (\<exists>d \<in> set handed. c0 \<in> set (parents_of repo d))" by blast
    then have "c0 \<in> set ?el" by (auto simp: newest_first_def list_ex_iff)
    then obtain c cs where el: "?el = c # cs" by (cases ?el) auto
    then have "c \<in> set ?el" by simp
    then have cin: "c \<in> set remaining" by (auto simp: newest_first_def)
    let ?rem = "removeAll c remaining"
    have d: "distinct ?rem" using Suc.prems(1) by (simp add: distinct_removeAll)
    have u: "set ?rem \<union> set (c # handed) = S" using Suc.prems(2) cin by auto
    have i: "set ?rem \<inter> set (c # handed) = {}" using Suc.prems(3) by auto
    have l: "length ?rem \<le> n"
      using Suc.prems(1,4) cin
      by (simp add: distinct_remove1_removeAll [symmetric] length_remove1)
    from Suc.IH [OF d u i l]
    have "set (time_order repo tips n ?rem (c # handed)) = set ?rem"
      "distinct (time_order repo tips n ?rem (c # handed))" by simp_all
    moreover have "time_order repo tips (Suc n) remaining handed
      = c # time_order repo tips n ?rem (c # handed)"
      using el by simp
    ultimately show ?thesis using cin by auto
  qed
qed

lemma walk_commits_connected:
  assumes "(b, r) \<in> (parent_rel repo)\<^sup>*" and "(v, r) \<notin> (parent_rel repo)\<^sup>*"
    and "S = {i. (b, i) \<in> (parent_rel repo)\<^sup>* \<and> (v, i) \<notin> (parent_rel repo)\<^sup>*}"
  shows "(b, r) \<in> (parent_rel repo \<inter> S \<times> S)\<^sup>*"
  using assms(1,2)
proof (induction rule: rtrancl_induct)
  case base
  show ?case by simp
next
  case (step y z)
  from step.hyps(2) step.prems have vy: "(v, y) \<notin> (parent_rel repo)\<^sup>*"
    by (blast intro: rtrancl_into_rtrancl)
  then have "(b, y) \<in> (parent_rel repo \<inter> S \<times> S)\<^sup>*" by (rule step.IH)
  moreover have "(b, z) \<in> (parent_rel repo)\<^sup>*"
    using step.hyps(1,2) by (rule rtrancl_into_rtrancl)
  then have "(y, z) \<in> parent_rel repo \<inter> S \<times> S"
    using step.hyps(1,2) step.prems vy by (simp add: assms(3))
  ultimately show ?case by (rule rtrancl_into_rtrancl)
qed

lemma rebase_walk_result:
  assumes "git_revwalk_all repo (rebase_walk b v) = Inr ids"
  shows "set ids = {i. (b, i) \<in> (parent_rel repo)\<^sup>* \<and> (v, i) \<notin> (parent_rel repo)\<^sup>*}"
    and "distinct ids"
proof -
  let ?cand = "walk_commits repo (rebase_walk b v)"
  let ?S = "{i. (b, i) \<in> (parent_rel repo)\<^sup>* \<and> (v, i) \<notin> (parent_rel repo)\<^sup>*}"
  have ids: "ids = rev (time_order repo [b] (length ?cand) ?cand [])"
    using assms
    by (simp add: git_revwalk_all_def rebase_walk_def Let_def split: if_splits)
  have s: "set ?cand = ?S"
    by (auto simp: walk_commits_def rebase_walk_def set_reachable)
  have "distinct (reachable repo [b])"
    unfolding reachable_def by (rule distinct_ancestors) simp
  then have d: "distinct ?cand"
    by (simp add: walk_commits_def rebase_walk_def)
  have c: "\<forall>r \<in> ?S. \<exists>t \<in> set [b]. (t, r) \<in> (parent_rel repo \<inter> ?S \<times> ?S)\<^sup>*"
    using walk_commits_connected [of b _ repo v ?S] by simp
  have "set (time_order repo [b] (length ?cand) ?cand []) = set ?cand \<and>
        distinct (time_order repo [b] (length ?cand) ?cand [])"
    by (rule time_order_all [OF c d]) (simp_all add: s)
  with s show "set ids = ?S" and "distinct ids"
    unfolding ids by simp_all
qed

lemma pair_collapse: "fst p = a \<Longrightarrow> p = (a, snd p)"
  by (cases p) simp

text \<open>
  On a linear history the walk that init configures hands out every parent before its
  child, whatever the commit times: the files of scenario S1 of the specification, with
  equal commit times and with commit times that disagree with the history.
\<close>

lemma init_linear_history:
  "fst (git_rebase (ex_linear 2 2 2) ex_linear_branch (Some ex_linear_upstream)
          (Some ex_linear_upstream) ex_sig None) = Inr ()
   \<and> merge_file (ex_linear_started 2 2 2) END_FILE = Some (''3'' @ [CHR 0x0A])
   \<and> merge_file (ex_linear_started 2 2 2) (CMT_FILE 1) = Some (oid_X @ [CHR 0x0A])
   \<and> merge_file (ex_linear_started 2 2 2) (CMT_FILE 2) = Some (oid_Y @ [CHR 0x0A])
   \<and> merge_file (ex_linear_started 2 2 2) (CMT_FILE 3) = Some (oid_Z @ [CHR 0x0A])
   \<and> merge_file (ex_linear_started 2 2 2) ONTO_FILE = Some (oid_B @ [CHR 0x0A])
   \<and> merge_file (ex_linear_started 2 2 2) HEAD_NAME_FILE = Some (''refs/heads/topic'' @ [CHR 0x0A])
   \<and> fst (git_rebase (ex_linear 5 3 9) ex_linear_branch (Some ex_linear_upstream)
          (Some ex_linear_upstream) ex_sig None) = Inr ()
   \<and> merge_file (ex_linear_started 5 3 9) (CMT_FILE 1) = Some (oid_X @ [CHR 0x0A])
   \<and> merge_file (ex_linear_started 5 3 9) (CMT_FILE 2) = Some (oid_Y @ [CHR 0x0A])
   \<and> merge_file (ex_linear_started 5 3 9) (CMT_FILE 3) = Some (oid_Z @ [CHR 0x0A])"
  by code_simp


subsection \<open>The plan written by init\<close>




text \<open>
  C2. After every successful init, the files \<^verbatim>\<open>cmt.1\<close> ... \<^verbatim>\<open>cmt.end\<close> hold exactly
  the commits reachable from the branch and not from the upstream that have at most one
  parent, each once, numbered consecutively from 1 in walk order; no other \<^verbatim>\<open>cmt.n\<close>
  exists, and \<^verbatim>\<open>end\<close> holds their count.
\<close>

theorem init_plan_files:
  assumes "git_rebase repo branch upstream onto signature given_opts = (Inr u, repo')"
  shows "\<exists>onto' ids plan.
      (case onto of None \<Rightarrow> upstream | Some given_onto \<Rightarrow> Some given_onto) = Some onto'
    \<and> git_revwalk_all repo
         \<lparr>pushed = [oid branch],
          hidden = [oid (case upstream of None \<Rightarrow> onto' | Some v \<Rightarrow> v)],
          sorting = {GIT_SORT_REVERSE, GIT_SORT_TIME}\<rparr> = Inr ids
    \<and> plan = filter (\<lambda>i. length (parents_of repo i) \<le> 1) ids
    \<and> distinct plan
    \<and> set plan = {i. (oid branch, i) \<in> (parent_rel repo)\<^sup>*
                    \<and> (oid (case upstream of None \<Rightarrow> onto' | Some v \<Rightarrow> v), i) \<notin> (parent_rel repo)\<^sup>*
                    \<and> length (parents_of repo i) \<le> 1}
    \<and> (\<forall>n. merge_file repo' (CMT_FILE n) =
          (if 1 \<le> n \<and> n \<le> int (length plan)
           then Some (take GIT_OID_HEXSZ (plan ! nat (n - 1)) @ [CHR 0x0A])
           else None))
    \<and> merge_file repo' END_FILE = Some (fmt_d (int (length plan)) @ [CHR 0x0A])"
proof -
  from git_rebase_plan [OF assms] obtain onto' ids where
    o: "(case onto of None \<Rightarrow> upstream | Some given_onto \<Rightarrow> Some given_onto) = Some onto'"
    and w: "git_revwalk_all repo
         (rebase_walk (oid branch) (oid (case upstream of None \<Rightarrow> onto' | Some v \<Rightarrow> v))) = Inr ids"
    and f: "\<forall>n. merge_file repo' (CMT_FILE n) =
          (if 1 \<le> n \<and> n \<le> int (length (filter (non_merge repo) ids))
           then Some (take GIT_OID_HEXSZ (filter (non_merge repo) ids ! nat (n - 1)) @ [CHR 0x0A])
           else None)"
    and e: "merge_file repo' END_FILE =
          Some (fmt_d (int (length (filter (non_merge repo) ids))) @ [CHR 0x0A])"
    by blast
  note r = rebase_walk_result [OF w]
  have nm: "non_merge repo = (\<lambda>i. length (parents_of repo i) \<le> 1)"
    by (simp add: non_merge_def fun_eq_iff)
  have "distinct (filter (non_merge repo) ids)" using r(2) by simp
  moreover have "set (filter (non_merge repo) ids) =
     {i. (oid branch, i) \<in> (parent_rel repo)\<^sup>*
        \<and> (oid (case upstream of None \<Rightarrow> onto' | Some v \<Rightarrow> v), i) \<notin> (parent_rel repo)\<^sup>*
        \<and> length (parents_of repo i) \<le> 1}"
    using r(1) by (auto simp: non_merge_def)
  ultimately show ?thesis
    using o w f e unfolding rebase_walk_def nm by blast
qed

theorem init_plan_files_witness:
  "git_rebase ex_repo ex_branch (Some ex_upstream) None ex_sig None = (Inr (), ex_started)
   \<and> (\<exists>onto' ids plan.
      (case None of None \<Rightarrow> Some ex_upstream | Some given_onto \<Rightarrow> Some given_onto) = Some onto'
    \<and> git_revwalk_all ex_repo
         \<lparr>pushed = [oid ex_branch],
          hidden = [oid (case Some ex_upstream of None \<Rightarrow> onto' | Some v \<Rightarrow> v)],
          sorting = {GIT_SORT_REVERSE, GIT_SORT_TIME}\<rparr> = Inr ids
    \<and> plan = filter (\<lambda>i. length (parents_of ex_repo i) \<le> 1) ids
    \<and> distinct plan
    \<and> set plan = {i. (oid ex_branch, i) \<in> (parent_rel ex_repo)\<^sup>*
                    \<and> (oid (case Some ex_upstream of None \<Rightarrow> onto' | Some v \<Rightarrow> v), i)
                          \<notin> (parent_rel ex_repo)\<^sup>*
                    \<and> length (parents_of ex_repo i) \<le> 1}
    \<and> (\<forall>n. merge_file ex_started (CMT_FILE n) =
          (if 1 \<le> n \<and> n \<le> int (length plan)
           then Some (take GIT_OID_HEXSZ (plan ! nat (n - 1)) @ [CHR 0x0A])
           else None))
    \<and> merge_file ex_started END_FILE = Some (fmt_d (int (length plan)) @ [CHR 0x0A]))"
proof -
  have "fst (git_rebase ex_repo ex_branch (Some ex_upstream) None ex_sig None) = Inr ()"
    by code_simp
  then have h: "git_rebase ex_repo ex_branch (Some ex_upstream) None ex_sig None = (Inr (), ex_started)"
    unfolding ex_started_def by (rule pair_collapse)
  note c = init_plan_files [OF h]
  from h c show ?thesis by (rule conjI)
qed

subsection \<open>Loading the state\<close>

lemma rebase_state_apply:
  "git_path_isdir repo REBASE_APPLY_DIR \<Longrightarrow> \<exists>e. rebase_state repo = Inl e"
  by (auto simp: rebase_state_def rebase_state_type_def Let_def split: sum.splits)

lemma rebase_state_no_head_name:
  "git_path_isdir repo REBASE_MERGE_DIR \<Longrightarrow> \<not> git_path_isdir repo REBASE_APPLY_DIR \<Longrightarrow>
   \<not> git_path_exists repo REBASE_MERGE_DIR HEAD_NAME_FILE \<Longrightarrow>
   OP_READ HEAD_NAME_FILE \<notin> faults repo \<Longrightarrow>
   rebase_state repo = Inl (GIT_ENOTFOUND, ''Could not find file to stat'')"
  by (auto simp: rebase_state_def rebase_state_type_def git_futils_readbuffer_def
      git_path_exists_def git_path_isdir_def split: option.splits)

text \<open>
  C5 (as amended). Whenever loading the state fails, commit and abort return the error
  of the load, and so does finish once its options are normalised; next fails too, with
  the message of that error and with the code \<open>-1\<close> or the code of that error; all
  four leave the repository untouched. The load fails with the NotFound error
  ``There is no rebase in progress'' when no rebase state directory exists; it fails
  whenever an apply-flavor directory exists; and it fails with the NotFound code when
  the merge directory exists but its \<^verbatim>\<open>head-name\<close> file is missing. So a directory alone
  does not let the operations proceed: they get past loading exactly when the state
  loads, which needs a merge-flavor directory and no apply-flavor directory; each then
  runs its body on the loaded state.
\<close>

theorem load_gate:
  "(rebase_state repo = Inl e \<longrightarrow>
      git_rebase_commit repo author committer message_encoding message = (Inl e, repo)
    \<and> git_rebase_abort repo signature = (Inl e, repo)
    \<and> (rebase_normalize_opts repo given_opts = Inr opts \<longrightarrow>
         git_rebase_finish repo signature given_opts = (Inl e, repo))
    \<and> snd (git_rebase_next repo checkout_opts) = repo
    \<and> (\<exists>c. fst (git_rebase_next repo checkout_opts) = Inl (c, snd e) \<and>
            (c = GIT_ERROR \<or> c = fst e)))
   \<and> (rebase_state repo = Inr state \<longrightarrow>
      git_path_isdir repo REBASE_MERGE_DIR
    \<and> \<not> git_path_isdir repo REBASE_APPLY_DIR
    \<and> git_rebase_next repo checkout_opts = rebase_next_merge repo state checkout_opts
    \<and> git_rebase_commit repo author committer message_encoding message =
        rebase_commit_merge repo state author committer message_encoding message
    \<and> git_rebase_abort repo signature = rebase_abort_loaded repo state signature
    \<and> (rebase_normalize_opts repo given_opts = Inr opts \<longrightarrow>
         git_rebase_finish repo signature given_opts =
           rebase_finish_loaded repo state signature opts))
   \<and> (\<not> git_path_isdir repo REBASE_APPLY_DIR \<and> \<not> git_path_isdir repo REBASE_MERGE_DIR \<longrightarrow>
      rebase_state repo = Inl (GIT_ENOTFOUND, ''There is no rebase in progress''))
   \<and> (git_path_isdir repo REBASE_APPLY_DIR \<longrightarrow> (\<exists>e'. rebase_state repo = Inl e'))
   \<and> (git_path_isdir repo REBASE_MERGE_DIR \<and> \<not> git_path_isdir repo REBASE_APPLY_DIR
      \<and> \<not> git_path_exists repo REBASE_MERGE_DIR HEAD_NAME_FILE
      \<and> OP_READ HEAD_NAME_FILE \<notin> faults repo \<longrightarrow>
      rebase_state repo = Inl (GIT_ENOTFOUND, ''Could not find file to stat''))"
proof (intro conjI impI)
  assume "rebase_state repo = Inr state"
  note l = rebase_state_loaded [OF this] this
  show "git_path_isdir repo REBASE_MERGE_DIR" by (rule l(3))
  show "\<not> git_path_isdir repo REBASE_APPLY_DIR" by (rule l(4))
  show "git_rebase_next repo checkout_opts = rebase_next_merge repo state checkout_opts"
    using l by (simp add: git_rebase_next_def)
  show "git_rebase_commit repo author committer message_encoding message =
        rebase_commit_merge repo state author committer message_encoding message"
    using l by (simp add: git_rebase_commit_def)
  show "git_rebase_abort repo signature = rebase_abort_loaded repo state signature"
    using l by (simp add: git_rebase_abort_def)
  show "git_rebase_finish repo signature given_opts = rebase_finish_loaded repo state signature opts"
    if "rebase_normalize_opts repo given_opts = Inr opts"
    using l that by (simp add: git_rebase_finish_def)
next
  assume "git_path_isdir repo REBASE_APPLY_DIR"
  then show "\<exists>e'. rebase_state repo = Inl e'" by (rule rebase_state_apply)
next
  assume "git_path_isdir repo REBASE_MERGE_DIR \<and> \<not> git_path_isdir repo REBASE_APPLY_DIR
      \<and> \<not> git_path_exists repo REBASE_MERGE_DIR HEAD_NAME_FILE
      \<and> OP_READ HEAD_NAME_FILE \<notin> faults repo"
  then show "rebase_state repo = Inl (GIT_ENOTFOUND, ''Could not find file to stat'')"
    by (simp add: rebase_state_no_head_name)
qed (simp_all add: rebase_state_none git_rebase_commit_def git_rebase_abort_def
       git_rebase_finish_def git_rebase_next_def)

theorem load_gate_witness:
  "rebase_state ex_repo = Inl (GIT_ENOTFOUND, ''There is no rebase in progress'')
   \<and> git_rebase_commit ex_repo None ex_sig None None =
        (Inl (GIT_ENOTFOUND, ''There is no rebase in progress''), ex_repo)
   \<and> git_rebase_abort ex_repo ex_sig =
        (Inl (GIT_ENOTFOUND, ''There is no rebase in progress''), ex_repo)
   \<and> git_rebase_finish ex_repo ex_sig None =
        (Inl (GIT_ENOTFOUND, ''There is no rebase in progress''), ex_repo)
   \<and> snd (git_rebase_next ex_repo None) = ex_repo
   \<and> (\<exists>c. fst (git_rebase_next ex_repo None) = Inl (c, ''There is no rebase in progress'') \<and>
           (c = GIT_ERROR \<or> c = GIT_ENOTFOUND))
   \<and> rebase_state (ex_picked ex_topic) = Inr (ex_state ex_topic)
   \<and> git_path_isdir (ex_picked ex_topic) REBASE_MERGE_DIR
   \<and> \<not> git_path_isdir (ex_picked ex_topic) REBASE_APPLY_DIR
   \<and> git_rebase_next (ex_picked ex_topic) None =
        rebase_next_merge (ex_picked ex_topic) (ex_state ex_topic) None
   \<and> git_rebase_commit (ex_picked ex_topic) None ex_sig None None =
        rebase_commit_merge (ex_picked ex_topic) (ex_state ex_topic) None ex_sig None None
   \<and> git_rebase_abort (ex_picked ex_topic) ex_sig =
        rebase_abort_loaded (ex_picked ex_topic) (ex_state ex_topic) ex_sig
   \<and> git_rebase_finish (ex_picked ex_topic) ex_sig None =
        rebase_finish_loaded (ex_picked ex_topic) (ex_state ex_topic) ex_sig GIT_REBASE_OPTIONS_INIT
   \<and> git_path_isdir ex_apply REBASE_APPLY_DIR
   \<and> (\<exists>e'. rebase_state ex_apply = Inl e')
   \<and> git_path_isdir ex_empty_dir REBASE_MERGE_DIR
   \<and> \<not> git_path_exists ex_empty_dir REBASE_MERGE_DIR HEAD_NAME_FILE
   \<and> rebase_state ex_empty_dir = Inl (GIT_ENOTFOUND, ''Could not find file to stat'')
   \<and> git_rebase_commit ex_empty_dir None ex_sig None None =
        (Inl (GIT_ENOTFOUND, ''Could not find file to stat''), ex_empty_dir)
   \<and> git_rebase_abort ex_empty_dir ex_sig =
        (Inl (GIT_ENOTFOUND, ''Could not find file to stat''), ex_empty_dir)
   \<and> git_rebase_finish ex_empty_dir ex_sig None =
        (Inl (GIT_ENOTFOUND, ''Could not find file to stat''), ex_empty_dir)"
proof -
  have d: "\<not> git_path_isdir ex_repo REBASE_APPLY_DIR \<and> \<not> git_path_isdir ex_repo REBASE_MERGE_DIR"
    by (simp add: git_path_isdir_def ex_repo_def)
  have o1: "rebase_normalize_opts ex_repo None = Inr GIT_REBASE_OPTIONS_INIT"
    by code_simp
  have s: "rebase_state (ex_picked ex_topic) = Inr (ex_state ex_topic)"
    by code_simp
  have o2: "rebase_normalize_opts (ex_picked ex_topic) None = Inr GIT_REBASE_OPTIONS_INIT"
    by code_simp
  have a: "git_path_isdir ex_apply REBASE_APPLY_DIR"
    by (simp add: git_path_isdir_def ex_apply_def)
  have m: "git_path_isdir ex_empty_dir REBASE_MERGE_DIR
      \<and> \<not> git_path_isdir ex_empty_dir REBASE_APPLY_DIR
      \<and> \<not> git_path_exists ex_empty_dir REBASE_MERGE_DIR HEAD_NAME_FILE
      \<and> OP_READ HEAD_NAME_FILE \<notin> faults ex_empty_dir"
    by (simp add: git_path_isdir_def git_path_exists_def ex_empty_dir_def ex_repo_def)
  have o3: "rebase_normalize_opts ex_empty_dir None = Inr GIT_REBASE_OPTIONS_INIT"
    by code_simp
  from d o1 load_gate [where repo = ex_repo
      and e = "(GIT_ENOTFOUND, ''There is no rebase in progress'')"
      and author = None and committer = ex_sig and message_encoding = None and message = None
      and signature = ex_sig and given_opts = None and opts = GIT_REBASE_OPTIONS_INIT
      and checkout_opts = None, unfolded fst_conv snd_conv]
  have 1: "rebase_state ex_repo = Inl (GIT_ENOTFOUND, ''There is no rebase in progress'')
   \<and> git_rebase_commit ex_repo None ex_sig None None =
        (Inl (GIT_ENOTFOUND, ''There is no rebase in progress''), ex_repo)
   \<and> git_rebase_abort ex_repo ex_sig =
        (Inl (GIT_ENOTFOUND, ''There is no rebase in progress''), ex_repo)
   \<and> git_rebase_finish ex_repo ex_sig None =
        (Inl (GIT_ENOTFOUND, ''There is no rebase in progress''), ex_repo)
   \<and> snd (git_rebase_next ex_repo None) = ex_repo
   \<and> (\<exists>c. fst (git_rebase_next ex_repo None) = Inl (c, ''There is no rebase in progress'') \<and>
           (c = GIT_ERROR \<or> c = GIT_ENOTFOUND))"
    by blast
  from s o2 load_gate [where repo = "ex_picked ex_topic" and state = "ex_state ex_topic"
      and author = None and committer = ex_sig and message_encoding = None and message = None
      and signature = ex_sig and given_opts = None and opts = GIT_REBASE_OPTIONS_INIT
      and checkout_opts = None]
  have 2: "git_path_isdir (ex_picked ex_topic) REBASE_MERGE_DIR
   \<and> \<not> git_path_isdir (ex_picked ex_topic) REBASE_APPLY_DIR
   \<and> git_rebase_next (ex_picked ex_topic) None =
        rebase_next_merge (ex_picked ex_topic) (ex_state ex_topic) None
   \<and> git_rebase_commit (ex_picked ex_topic) None ex_sig None None =
        rebase_commit_merge (ex_picked ex_topic) (ex_state ex_topic) None ex_sig None None
   \<and> git_rebase_abort (ex_picked ex_topic) ex_sig =
        rebase_abort_loaded (ex_picked ex_topic) (ex_state ex_topic) ex_sig
   \<and> git_rebase_finish (ex_picked ex_topic) ex_sig None =
        rebase_finish_loaded (ex_picked ex_topic) (ex_state ex_topic) ex_sig GIT_REBASE_OPTIONS_INIT"
    by blast
  from a load_gate [where repo = ex_apply]
  have 3: "\<exists>e'. rebase_state ex_apply = Inl e'"
    by blast
  from m o3 load_gate [where repo = ex_empty_dir
      and e = "(GIT_ENOTFOUND, ''Could not find file to stat'')"
      and author = None and committer = ex_sig and message_encoding = None and message = None
      and signature = ex_sig and given_opts = None and opts = GIT_REBASE_OPTIONS_INIT]
  have 4: "rebase_state ex_empty_dir = Inl (GIT_ENOTFOUND, ''Could not find file to stat'')
   \<and> git_rebase_commit ex_empty_dir None ex_sig None None =
        (Inl (GIT_ENOTFOUND, ''Could not find file to stat''), ex_empty_dir)
   \<and> git_rebase_abort ex_empty_dir ex_sig =
        (Inl (GIT_ENOTFOUND, ''Could not find file to stat''), ex_empty_dir)
   \<and> git_rebase_finish ex_empty_dir ex_sig None =
        (Inl (GIT_ENOTFOUND, ''Could not find file to stat''), ex_empty_dir)"
    by blast
  from 1 s 2 a 3 m 4 show ?thesis by blast
qed

text \<open>
  The claim as stated fails in both directions: with an apply-flavor directory all four
  operations stop while loading the state, and with a merge directory that lacks its
  files they fail with the NotFound code although the directory exists.
\<close>

theorem load_gate_counterexample:
  "git_path_isdir ex_apply REBASE_APPLY_DIR
   \<and> rebase_state ex_apply = Inl (GIT_ERROR, ''Patch application rebase is not supported'')
   \<and> fst (git_rebase_next ex_apply None) =
        Inl (GIT_ERROR, ''Patch application rebase is not supported'')
   \<and> fst (git_rebase_commit ex_apply None ex_sig None None) =
        Inl (GIT_ERROR, ''Patch application rebase is not supported'')
   \<and> fst (git_rebase_abort ex_apply ex_sig) =
        Inl (GIT_ERROR, ''Patch application rebase is not supported'')
   \<and> fst (git_rebase_finish ex_apply ex_sig None) =
        Inl (GIT_ERROR, ''Patch application rebase is not supported'')
   \<and> git_path_isdir ex_empty_dir REBASE_MERGE_DIR
   \<and> fst (git_rebase_commit ex_empty_dir None ex_sig None None) =
        Inl (GIT_ENOTFOUND, ''Could not find file to stat'')
   \<and> fst (git_rebase_abort ex_empty_dir ex_sig) =
        Inl (GIT_ENOTFOUND, ''Could not find file to stat'')
   \<and> fst (git_rebase_finish ex_empty_dir ex_sig None) =
        Inl (GIT_ENOTFOUND, ''Could not find file to stat'')"
  by code_simp

subsection \<open>Detached HEAD\<close>

lemma find_Some_holds: "find P xs = Some x \<Longrightarrow> P x"
  by (induction xs) (auto split: if_splits)

lemma abort_detached:
  assumes "rebase_state repo = Inr state" and "head_detached state"
    and "git_rebase_abort repo signature = (Inr u, repo')"
  shows "HEAD repo' = Some (Direct (orig_head_id state))"
proof -
  from assms obtain repo1 c repo2 where
    r1: "git_reference_create repo (Some GIT_HEAD_FILE) (orig_head_id state) True
           signature ''rebase: aborting'' = (Inr (), repo1)"
    and l: "git_commit_lookup repo1 (orig_head_id state) = Inr c"
    and rs: "git_reset repo1 c signature = (Inr (), repo2)"
    and cl: "rebase_cleanup repo2 state = (Inr u, repo')"
    unfolding git_rebase_abort_def rebase_abort_loaded_def
    by (auto split: sum.splits prod.splits)
  have h1: "HEAD repo1 = Some (Direct (orig_head_id state))"
    using r1 by (auto simp: git_reference_create_def set_reference_def split: if_splits sum.splits)
  have c: "commit_id c = orig_head_id state"
    using l find_Some_holds [of "\<lambda>c. commit_id c = orig_head_id state" "odb repo1" c]
    by (auto simp: git_commit_lookup_def split: option.splits)
  have h2: "HEAD repo2 = Some (Direct (orig_head_id state))"
    using rs h1 c
    by (auto simp: git_reset_def git_reference__update_for_commit_def set_reference_def
        GIT_HEAD_FILE_def split: if_splits prod.splits sum.splits)
  show ?thesis
    using cl h2
    by (auto simp: rebase_cleanup_def git_futils_rmdir_r_def split: option.splits if_splits)
qed

text \<open>
  C3 (the code at the failing input). In a detached-HEAD rebase the loaded state has
  \<open>head_detached\<close> set and no \<open>orig_head_name\<close>. \<^verbatim>\<open>git_rebase_finish\<close> has no branch for
  that case: it hands the absent name to the reference functions, so it fails and creates
  no reference, where the claim has it create \<open>HEAD\<close> as a direct reference to the
  terminal commit. (\<^verbatim>\<open>git_rebase_abort\<close> does test \<open>head_detached\<close>, see \<open>abort_detached\<close>.)
\<close>

theorem finish_detached:
  assumes "rebase_state repo = Inr state" and "head_detached state"
    and "rebase_normalize_opts repo given_opts = Inr opts"
    and "git_repository_head_commit repo = Inr terminal_commit"
  shows "git_rebase_finish repo signature given_opts =
           (Inl (GIT_ABORT, ''assert(repo && name)''), repo)"
  using assms rebase_state_loaded(5) [OF assms(1)]
  by (simp add: git_rebase_finish_def rebase_finish_loaded_def git_reference_create_matching_def)

theorem finish_detached_witness:
  "rebase_state (ex_picked ORIG_DETACHED_HEAD) = Inr (ex_state ORIG_DETACHED_HEAD)
   \<and> head_detached (ex_state ORIG_DETACHED_HEAD)
   \<and> git_rebase_finish (ex_picked ORIG_DETACHED_HEAD) ex_sig None =
        (Inl (GIT_ABORT, ''assert(repo && name)''), ex_picked ORIG_DETACHED_HEAD)"
proof -
  have s: "rebase_state (ex_picked ORIG_DETACHED_HEAD) = Inr (ex_state ORIG_DETACHED_HEAD)"
    by code_simp
  have d: "head_detached (ex_state ORIG_DETACHED_HEAD)"
    by (simp add: ex_state_def)
  have o: "rebase_normalize_opts (ex_picked ORIG_DETACHED_HEAD) None = Inr GIT_REBASE_OPTIONS_INIT"
    by code_simp
  have t: "git_repository_head_commit (ex_picked ORIG_DETACHED_HEAD) = Inr (ex_commit oid_U [] [(''f'', ''0'')] 0)"
    by code_simp
  from finish_detached [OF s d o t] s d show ?thesis by blast
qed

subsection \<open>Failure of init after the state directory was written\<close>

lemma faults_setupfile:
  "rebase_setupfile repo f fl c = (res, repo') \<Longrightarrow> faults repo' = faults repo"
  by (cases res) (auto dest!: rebase_setupfile_Inl rebase_setupfile_Inr)

lemma faults_setup_merge_loop:
  "rebase_setup_merge_loop repo ids cnt = (res, repo') \<Longrightarrow> faults repo' = faults repo"
proof (induction ids arbitrary: repo cnt)
  case Nil
  then show ?case by simp
next
  case (Cons i ids)
  then show ?case
    by (auto split: sum.splits if_splits prod.splits dest: faults_setupfile)
qed

lemma faults_setup_merge:
  "rebase_setup_merge repo branch upstream onto opts = (res, repo') \<Longrightarrow> faults repo' = faults repo"
  unfolding rebase_setup_merge_def
  by (auto split: sum.splits prod.splits dest!: faults_setupfile faults_setup_merge_loop)

lemma faults_p_mkdir:
  "p_mkdir repo d = (res, repo') \<Longrightarrow> faults repo' = faults repo"
  by (auto simp: p_mkdir_def split: if_splits)

lemma faults_set_orig_head:
  "git_repository__set_orig_head repo i = (res, repo') \<Longrightarrow> faults repo' = faults repo"
  by (auto simp: git_repository__set_orig_head_def split: if_splits)

lemma faults_setup_files:
  "rebase_setup_files repo branch upstream onto opts = (res, repo') \<Longrightarrow> faults repo' = faults repo"
  unfolding rebase_setup_files_def
  by (auto split: sum.splits prod.splits
      dest!: faults_setupfile faults_setup_merge faults_p_mkdir faults_set_orig_head)

lemma rebase_setup_failure_cleans:
  assumes "rebase_setup repo branch upstream onto opts = (Inl e, repo')"
    and "OP_RMDIR \<notin> faults repo"
  shows "\<not> git_path_isdir repo' REBASE_MERGE_DIR"
proof -
  from assms(1) obtain repo1 where
    f: "rebase_setup_files repo branch upstream onto opts = (Inl e, repo1)"
    and c: "repo' = git_repository__cleanup_files repo1 REBASE_MERGE_DIR"
    unfolding rebase_setup_def by (auto split: sum.splits prod.splits)
  have "OP_RMDIR \<notin> faults repo1" using faults_setup_files [OF f] assms(2) by simp
  then show ?thesis
    unfolding c
    by (simp add: git_repository__cleanup_files_def git_futils_rmdir_r_def git_path_isdir_def)
qed

text \<open>
  C4 (the code at the failing input). \<^verbatim>\<open>rebase_setup\<close> removes the state directory when
  it fails (\<open>rebase_setup_failure_cleans\<close>), but \<^verbatim>\<open>git_rebase\<close> does not when a later
  step fails: if the checkout of the tree of \<open>onto\<close> fails after \<^verbatim>\<open>rebase_setup\<close>
  succeeded and \<open>HEAD\<close> was moved, init returns the error and the state directory is
  still there, where the claim has it removed.
\<close>

theorem init_failure_after_setup:
  assumes "giterr__check_version given_opts 1"
    and "rebase_normalize_opts repo given_opts = Inr opts"
    and "(case onto of None \<Rightarrow> upstream | Some given_onto \<Rightarrow> Some given_onto) = Some onto'"
    and "\<not> is_bare repo"
    and "rebase_ensure_not_in_progress repo = Inr ()"
    and "rebase_ensure_not_dirty repo = Inr ()"
    and "rebase_setup repo branch upstream onto' opts = (Inr (), repo1)"
    and "git_reference_create repo1 (Some GIT_HEAD_FILE) (oid onto') True signature
           (''rebase: checkout '' @ rebase_onto_name onto') = (Inr (), repo2)"
    and "git_checkout_head repo2 (GIT_CHECKOUT_OPTIONS_INIT\<lparr>checkout_strategy := GIT_CHECKOUT_FORCE\<rparr>)
           = (Inl e, repo3)"
  shows "git_rebase repo branch upstream onto signature given_opts = (Inl e, repo3)
    \<and> git_path_isdir repo3 REBASE_MERGE_DIR"
proof -
  have "repo3 = repo2" using assms(9)
    by (auto simp: git_checkout_head_def split: if_splits sum.splits)
  moreover have "dirs repo2 = dirs repo1" using assms(8)
    by (auto simp: git_reference_create_def set_reference_def GIT_HEAD_FILE_def
        split: if_splits sum.splits)
  ultimately have "git_path_isdir repo3 REBASE_MERGE_DIR"
    using rebase_setup_isdir [OF assms(7)] by (simp add: git_path_isdir_def)
  moreover have "git_rebase repo branch upstream onto signature given_opts = (Inl e, repo3)"
    using assms by (simp add: git_rebase_def git_repository__ensure_not_bare_def)
  ultimately show ?thesis by simp
qed

theorem init_failure_after_setup_witness:
  "(git_rebase ex_checkout_fails ex_branch (Some ex_upstream) None ex_sig None = (Inl ext_error, ex_head_moved)
    \<and> git_path_isdir ex_head_moved REBASE_MERGE_DIR)
   \<and> ORIG_HEAD ex_head_moved = Some oid_T
   \<and> HEAD ex_head_moved = Some (Direct oid_U)
   \<and> merge_file ex_head_moved END_FILE = Some (''3'' @ [CHR 0x0A])"
proof -
  have e: "ORIG_HEAD ex_head_moved = Some oid_T \<and> HEAD ex_head_moved = Some (Direct oid_U)
      \<and> merge_file ex_head_moved END_FILE = Some (''3'' @ [CHR 0x0A])"
    by code_simp
  have v: "giterr__check_version None 1" by (simp add: giterr__check_version_def)
  have o: "rebase_normalize_opts ex_checkout_fails None = Inr GIT_REBASE_OPTIONS_INIT" by code_simp
  have n: "(case None of None \<Rightarrow> Some ex_upstream | Some given_onto \<Rightarrow> Some given_onto) = Some ex_upstream"
    by simp
  have b: "\<not> is_bare ex_checkout_fails" by (simp add: ex_checkout_fails_def ex_repo_def)
  have p: "rebase_ensure_not_in_progress ex_checkout_fails = Inr ()" by code_simp
  have d: "rebase_ensure_not_dirty ex_checkout_fails = Inr ()" by code_simp
  have "fst (rebase_setup ex_checkout_fails ex_branch (Some ex_upstream) ex_upstream
          GIT_REBASE_OPTIONS_INIT) = Inr ()"
    by code_simp
  then have s: "rebase_setup ex_checkout_fails ex_branch (Some ex_upstream) ex_upstream
          GIT_REBASE_OPTIONS_INIT = (Inr (), ex_setup_done)"
    unfolding ex_setup_done_def by (rule pair_collapse)
  have ou: "oid ex_upstream = oid_U" by (simp add: ex_upstream_def)
  have "fst (git_reference_create ex_setup_done (Some GIT_HEAD_FILE) oid_U True ex_sig
          (''rebase: checkout '' @ rebase_onto_name ex_upstream)) = Inr ()"
    by code_simp
  then have r: "git_reference_create ex_setup_done (Some GIT_HEAD_FILE) (oid ex_upstream) True ex_sig
          (''rebase: checkout '' @ rebase_onto_name ex_upstream) = (Inr (), ex_head_moved)"
    unfolding ex_head_moved_def ou by (rule pair_collapse)
  have "fst (git_checkout_head ex_head_moved
          (GIT_CHECKOUT_OPTIONS_INIT\<lparr>checkout_strategy := GIT_CHECKOUT_FORCE\<rparr>)) = Inl ext_error"
    by code_simp
  then have c: "git_checkout_head ex_head_moved
          (GIT_CHECKOUT_OPTIONS_INIT\<lparr>checkout_strategy := GIT_CHECKOUT_FORCE\<rparr>)
        = (Inl ext_error, snd (git_checkout_head ex_head_moved
          (GIT_CHECKOUT_OPTIONS_INIT\<lparr>checkout_strategy := GIT_CHECKOUT_FORCE\<rparr>)))"
    by (rule pair_collapse)
  have "snd (git_checkout_head ex_head_moved
          (GIT_CHECKOUT_OPTIONS_INIT\<lparr>checkout_strategy := GIT_CHECKOUT_FORCE\<rparr>)) = ex_head_moved"
    using c by (auto simp: git_checkout_head_def split: if_splits sum.splits)
  with c have c': "git_checkout_head ex_head_moved
          (GIT_CHECKOUT_OPTIONS_INIT\<lparr>checkout_strategy := GIT_CHECKOUT_FORCE\<rparr>)
        = (Inl ext_error, ex_head_moved)"
    by simp
  from init_failure_after_setup [OF v o n b p d s r c'] e show ?thesis by (rule conjI)
qed

subsection \<open>Committing\<close>

text \<open>
  C6. Commit, in order: fails with the invalid-state error (\<^verbatim>\<open>-1\<close>, "No rebase-merge
  state files exist") when the loaded merge state has step 0 or no current pick; otherwise
  fails with \<open>GIT_EMERGECONFLICT\<close> when the repository index has conflict entries;
  otherwise fails with \<open>GIT_EAPPLIED\<close> when the diff from the tree of \<open>HEAD\<close> to the index
  has no deltas. In each case the repository is returned unchanged: no commit is created
  and \<open>HEAD\<close> is not moved.
\<close>

theorem commit_checks_in_order:
  assumes "rebase_state repo = Inr state"
  shows
    "(msgnum (merge state) = 0 \<or> current (merge state) = None \<longrightarrow>
        git_rebase_commit repo author committer message_encoding message =
          (Inl (GIT_ERROR, ''No rebase-merge state files exist''), repo))
   \<and> (msgnum (merge state) \<noteq> 0 \<and> current (merge state) \<noteq> None
        \<and> git_repository_index repo = Inr idx \<and> git_index_has_conflicts idx \<longrightarrow>
        git_rebase_commit repo author committer message_encoding message =
          (Inl (GIT_EMERGECONFLICT, ''Conflicts have not been resolved''), repo))
   \<and> (msgnum (merge state) \<noteq> 0 \<and> current (merge state) \<noteq> None
        \<and> git_repository_index repo = Inr idx \<and> \<not> git_index_has_conflicts idx
        \<and> git_repository_head_commit repo = Inr head_commit
        \<and> git_diff_tree_to_index repo (commit_tree head_commit) idx = Inr diff
        \<and> git_diff_num_deltas diff = 0 \<longrightarrow>
        git_rebase_commit repo author committer message_encoding message =
          (Inl (GIT_EAPPLIED, ''This patch has already been applied''), repo))"
  using assms rebase_state_loaded(1) [OF assms]
  by (auto simp: git_rebase_commit_def rebase_commit_merge_def)

theorem commit_checks_in_order_witness:
  "git_rebase_commit ex_unpicked None ex_sig None None =
     (Inl (GIT_ERROR, ''No rebase-merge state files exist''), ex_unpicked)
   \<and> git_rebase_commit ex_conflicted None ex_sig None None =
     (Inl (GIT_EMERGECONFLICT, ''Conflicts have not been resolved''), ex_conflicted)
   \<and> git_rebase_commit ex_applied None ex_sig None None =
     (Inl (GIT_EAPPLIED, ''This patch has already been applied''), ex_applied)"
proof -
  have s0: "rebase_state ex_unpicked =
     Inr ((ex_state ex_topic)\<lparr>merge := (merge (ex_state ex_topic))\<lparr>msgnum := 0, current := None\<rparr>\<rparr>)"
    by code_simp
  have 1: "git_rebase_commit ex_unpicked None ex_sig None None =
     (Inl (GIT_ERROR, ''No rebase-merge state files exist''), ex_unpicked)"
    using commit_checks_in_order [OF s0, of None ex_sig None None] by simp
  have s1: "rebase_state ex_conflicted = Inr (ex_state ex_topic)" by code_simp
  have m: "msgnum (merge (ex_state ex_topic)) \<noteq> 0 \<and> current (merge (ex_state ex_topic)) \<noteq> None"
    by (simp add: ex_state_def)
  have i1: "git_repository_index ex_conflicted = Inr \<lparr>entries = [(''g'', ''1'')], conflicts = [''f'']\<rparr>"
    by code_simp
  have c1: "git_index_has_conflicts \<lparr>entries = [(''g'', ''1'')], conflicts = [''f'']\<rparr>"
    by (simp add: git_index_has_conflicts_def)
  have 2: "git_rebase_commit ex_conflicted None ex_sig None None =
     (Inl (GIT_EMERGECONFLICT, ''Conflicts have not been resolved''), ex_conflicted)"
    using commit_checks_in_order [OF s1, of None ex_sig None None
        "\<lparr>entries = [(''g'', ''1'')], conflicts = [''f'']\<rparr>"] m i1 c1
    by blast
  have s2: "rebase_state ex_applied = Inr (ex_state ex_topic)" by code_simp
  have i2: "git_repository_index ex_applied = Inr \<lparr>entries = [(''f'', ''0'')], conflicts = []\<rparr>"
    by code_simp
  have c2: "\<not> git_index_has_conflicts \<lparr>entries = [(''f'', ''0'')], conflicts = []\<rparr>"
    by (simp add: git_index_has_conflicts_def)
  have h2: "git_repository_head_commit ex_applied = Inr (ex_commit oid_U [] [(''f'', ''0'')] 0)"
    by code_simp
  have d2: "git_diff_tree_to_index ex_applied (commit_tree (ex_commit oid_U [] [(''f'', ''0'')] 0))
              \<lparr>entries = [(''f'', ''0'')], conflicts = []\<rparr> = Inr []"
    by code_simp
  have n2: "git_diff_num_deltas [] = 0" by (simp add: git_diff_num_deltas_def)
  have 3: "git_rebase_commit ex_applied None ex_sig None None =
     (Inl (GIT_EAPPLIED, ''This patch has already been applied''), ex_applied)"
    using commit_checks_in_order [OF s2, of None ex_sig None None
        "\<lparr>entries = [(''f'', ''0'')], conflicts = []\<rparr>" "ex_commit oid_U [] [(''f'', ''0'')] 0" "[]"]
      m i2 c2 h2 d2 n2
    by blast
  from 1 2 3 show ?thesis by blast
qed

text \<open>
  C7 (as amended). In commit the author defaults to the author of the staged pick
  whenever the caller supplies none. The message and its encoding go together: when the
  caller supplies no message, both are taken from the pick (an encoding the caller
  supplied is dropped); when the caller supplies a message, the encoding is the one the
  caller gave, also when that is none.
\<close>

theorem commit_defaults:
  assumes "rebase_commit_merge repo state author committer message_encoding message = (Inr new_id, repo')"
    and "current (merge state) = Some cur"
    and "git_commit_lookup repo new_id = Inl e0"
  shows "\<exists>c. git_commit_lookup repo' new_id = Inr c
     \<and> commit_author c = (case author of None \<Rightarrow> commit_author cur | Some a \<Rightarrow> a)
     \<and> commit_message c = (case message of None \<Rightarrow> commit_message cur | Some m \<Rightarrow> m)
     \<and> commit_message_encoding c =
         (case message of None \<Rightarrow> commit_message_encoding cur | Some m \<Rightarrow> message_encoding)"
proof -
  from assms(1) obtain cur' t head_commit repo1 repo2 where
    c: "current (merge state) = Some cur'"
    and cc: "git_commit_create repo
       (case author of None \<Rightarrow> commit_author cur' | Some a \<Rightarrow> a) committer
       (case message of None \<Rightarrow> commit_message_encoding cur' | Some _ \<Rightarrow> message_encoding)
       (case message of None \<Rightarrow> commit_message cur' | Some m \<Rightarrow> m) t [head_commit] = (Inr new_id, repo1)"
    and up: "git_reference__update_for_commit repo1 ''HEAD'' new_id committer ''rebase'' = (Inr (), repo2)"
    and wr: "rebase_setupfile repo2 REWRITTEN_FILE {O_CREAT, O_WRONLY, O_APPEND}
       (take GIT_OID_HEXSZ (commit_id cur') @ '' '' @ take GIT_OID_HEXSZ new_id @ [CHR 0x0A]) = (Inr (), repo')"
    by (rule rebase_commit_merge_InrE)
  have cur: "cur' = cur" using c assms(2) by simp
  from git_commit_create_Inr [OF cc assms(3)] obtain c' where
    l1: "git_commit_lookup repo1 new_id = Inr c'"
    and f: "commit_author c' = (case author of None \<Rightarrow> commit_author cur | Some a \<Rightarrow> a)"
      "commit_message c' = (case message of None \<Rightarrow> commit_message cur | Some m \<Rightarrow> m)"
      "commit_message_encoding c' =
         (case message of None \<Rightarrow> commit_message_encoding cur | Some m \<Rightarrow> message_encoding)"
    unfolding cur by auto
  have "git_commit_lookup repo' new_id = git_commit_lookup repo1 new_id"
    using update_for_commit_trace [OF up] rebase_setupfile_trace [OF wr] by simp
  with l1 f show ?thesis by simp
qed

theorem commit_defaults_witness:
  "rebase_commit_merge (ex_picked ex_topic) (ex_state ex_topic) None ex_sig None None
     = (Inr oid_N, ex_committed)
   \<and> current (merge (ex_state ex_topic)) = Some ex_pick
   \<and> git_commit_lookup (ex_picked ex_topic) oid_N = Inl (GIT_ENOTFOUND, ''Object not found'')
   \<and> (\<exists>c. git_commit_lookup ex_committed oid_N = Inr c
        \<and> commit_author c = (case None of None \<Rightarrow> commit_author ex_pick | Some a \<Rightarrow> a)
        \<and> commit_message c = (case None of None \<Rightarrow> commit_message ex_pick | Some m \<Rightarrow> m)
        \<and> commit_message_encoding c =
            (case (None :: string option) of None \<Rightarrow> commit_message_encoding ex_pick | Some m \<Rightarrow> None))"
proof -
  have s: "rebase_state (ex_picked ex_topic) = Inr (ex_state ex_topic)" by code_simp
  have t: "rtype (ex_state ex_topic) = GIT_REBASE_TYPE_MERGE" by (simp add: ex_state_def)
  have "fst (git_rebase_commit (ex_picked ex_topic) None ex_sig None None) = Inr oid_N"
    by code_simp
  then have "git_rebase_commit (ex_picked ex_topic) None ex_sig None None = (Inr oid_N, ex_committed)"
    unfolding ex_committed_def by (rule pair_collapse)
  then have h: "rebase_commit_merge (ex_picked ex_topic) (ex_state ex_topic) None ex_sig None None
     = (Inr oid_N, ex_committed)"
    using s t by (simp add: git_rebase_commit_def)
  have c: "current (merge (ex_state ex_topic)) = Some ex_pick" by (simp add: ex_state_def)
  have f: "git_commit_lookup (ex_picked ex_topic) oid_N = Inl (GIT_ENOTFOUND, ''Object not found'')"
    by code_simp
  from commit_defaults [OF h c f] h c f show ?thesis by blast
qed

text \<open>
  The claim as stated fails for the encoding: with a message but no encoding from the
  caller, the new commit has no encoding, although the pick has one.
\<close>

theorem commit_defaults_counterexample:
  "fst (git_rebase_commit (ex_picked ex_topic) None ex_sig None (Some ''reworded'')) = Inr oid_N
   \<and> git_commit_lookup ex_reworded oid_N =
       Inr ((ex_commit oid_N [oid_U] [(''f'', ''0''), (''g'', ''1'')] 20)
              \<lparr>commit_message_encoding := None, commit_message := ''reworded''\<rparr>)
   \<and> current (merge (ex_state ex_topic)) = Some ex_pick
   \<and> rebase_state (ex_picked ex_topic) = Inr (ex_state ex_topic)
   \<and> commit_message_encoding ex_pick = Some ''ISO-8859-1''"
  by code_simp

text \<open>
  C8. Within one call of next, \<^verbatim>\<open>msgnum\<close> is written, then \<^verbatim>\<open>current\<close>, and both
  before any checkout of the merged index: what a call adds to the trace contains a
  checkout only as the third event after these two writes. Within commit, the line is
  appended to \<^verbatim>\<open>rewritten\<close> only after the new commit was created (and \<open>HEAD\<close> updated),
  and the commit named in the line exists in the object database.
\<close>

theorem write_ordering:
  "(git_rebase_next repo checkout_opts = (res, repo') \<longrightarrow>
      (\<exists>evs. trace repo' = trace repo @ evs \<and>
         (EvCheckout \<in> set evs \<longrightarrow>
            (\<exists>m c. evs = [EvWrite MSGNUM_FILE m, EvWrite CURRENT_FILE c, EvCheckout]))))
   \<and> (git_rebase_commit repo author committer message_encoding message = (res2, repo'') \<longrightarrow>
      (\<exists>evs. trace repo'' = trace repo @ evs \<and>
         (\<forall>l. EvAppend REWRITTEN_FILE l \<in> set evs \<longrightarrow>
            (\<exists>new_id nm c old_id.
               evs = [EvCommitCreate new_id, EvRef nm (Direct new_id) ''rebase'',
                      EvAppend REWRITTEN_FILE l]
               \<and> git_commit_lookup repo'' new_id = Inr c
               \<and> l = take GIT_OID_HEXSZ old_id @ '' '' @ take GIT_OID_HEXSZ new_id @ [CHR 0x0A]))))"
proof (intro conjI impI)
  assume a: "git_rebase_next repo checkout_opts = (res, repo')"
  show "\<exists>evs. trace repo' = trace repo @ evs \<and>
         (EvCheckout \<in> set evs \<longrightarrow>
            (\<exists>m c. evs = [EvWrite MSGNUM_FILE m, EvWrite CURRENT_FILE c, EvCheckout]))"
  proof (cases "rebase_state repo")
    case (Inl e)
    with a show ?thesis by (simp add: git_rebase_next_def)
  next
    case (Inr state)
    with a rebase_state_loaded(1) [OF Inr]
    have "rebase_next_merge repo state checkout_opts = (res, repo')"
      by (simp add: git_rebase_next_def)
    then show ?thesis by (rule trace_next_merge)
  qed
next
  assume a: "git_rebase_commit repo author committer message_encoding message = (res2, repo'')"
  show "\<exists>evs. trace repo'' = trace repo @ evs \<and>
         (\<forall>l. EvAppend REWRITTEN_FILE l \<in> set evs \<longrightarrow>
            (\<exists>new_id nm c old_id.
               evs = [EvCommitCreate new_id, EvRef nm (Direct new_id) ''rebase'',
                      EvAppend REWRITTEN_FILE l]
               \<and> git_commit_lookup repo'' new_id = Inr c
               \<and> l = take GIT_OID_HEXSZ old_id @ '' '' @ take GIT_OID_HEXSZ new_id @ [CHR 0x0A]))"
  proof (cases "rebase_state repo")
    case (Inl e)
    with a show ?thesis by (simp add: git_rebase_commit_def)
  next
    case (Inr state)
    with a rebase_state_loaded(1) [OF Inr]
    have "rebase_commit_merge repo state author committer message_encoding message = (res2, repo'')"
      by (simp add: git_rebase_commit_def)
    then show ?thesis by (rule trace_commit_merge)
  qed
qed

theorem write_ordering_witness:
  "git_rebase_next (ex_picked ex_topic) None = (Inr (), ex_next)
   \<and> git_rebase_commit (ex_picked ex_topic) None ex_sig None None = (Inr oid_N, ex_committed)
   \<and> (\<exists>evs. trace ex_next = trace (ex_picked ex_topic) @ evs \<and>
         (EvCheckout \<in> set evs \<longrightarrow>
            (\<exists>m c. evs = [EvWrite MSGNUM_FILE m, EvWrite CURRENT_FILE c, EvCheckout])))
   \<and> (\<exists>evs. trace ex_committed = trace (ex_picked ex_topic) @ evs \<and>
         (\<forall>l. EvAppend REWRITTEN_FILE l \<in> set evs \<longrightarrow>
            (\<exists>new_id nm c old_id.
               evs = [EvCommitCreate new_id, EvRef nm (Direct new_id) ''rebase'',
                      EvAppend REWRITTEN_FILE l]
               \<and> git_commit_lookup ex_committed new_id = Inr c
               \<and> l = take GIT_OID_HEXSZ old_id @ '' '' @ take GIT_OID_HEXSZ new_id @ [CHR 0x0A])))
   \<and> trace ex_next =
        [EvWrite MSGNUM_FILE (''2'' @ [CHR 0x0A]), EvWrite CURRENT_FILE (oid_X @ [CHR 0x0A]),
         EvCheckout]
   \<and> trace ex_committed =
        [EvCommitCreate oid_N, EvRef ''HEAD'' (Direct oid_N) ''rebase'',
         EvAppend REWRITTEN_FILE (oid_P1 @ '' '' @ oid_N @ [CHR 0x0A])]"
proof -
  have "fst (git_rebase_next (ex_picked ex_topic) None) = Inr ()" by code_simp
  then have n: "git_rebase_next (ex_picked ex_topic) None = (Inr (), ex_next)"
    unfolding ex_next_def by (rule pair_collapse)
  have "fst (git_rebase_commit (ex_picked ex_topic) None ex_sig None None) = Inr oid_N"
    by code_simp
  then have c: "git_rebase_commit (ex_picked ex_topic) None ex_sig None None = (Inr oid_N, ex_committed)"
    unfolding ex_committed_def by (rule pair_collapse)
  have t1: "trace ex_next =
        [EvWrite MSGNUM_FILE (''2'' @ [CHR 0x0A]), EvWrite CURRENT_FILE (oid_X @ [CHR 0x0A]),
         EvCheckout]"
    by code_simp
  have t2: "trace ex_committed =
        [EvCommitCreate oid_N, EvRef ''HEAD'' (Direct oid_N) ''rebase'',
         EvAppend REWRITTEN_FILE (oid_P1 @ '' '' @ oid_N @ [CHR 0x0A])]"
    by code_simp
  from write_ordering [of "ex_picked ex_topic" None "Inr ()" ex_next None ex_sig None None
      "Inr oid_N" ex_committed] n c t1 t2
  show ?thesis by blast
qed

subsection \<open>Preconditions of init\<close>

text \<open>
  C9. Once the options are accepted and normalised, init checks its preconditions in
  this order and returns the error of the first one violated, leaving the repository as
  it was (no state directory is created): (1) the repository is not bare, (2) no rebase
  state directory exists, (3) the index has no deltas against the tree of \<open>HEAD\<close>,
  (4) the working directory has no deltas against the index. The four errors are
  pairwise distinct (the last three share the code \<^verbatim>\<open>-1\<close> and differ in their message).
\<close>

theorem init_preconditions_in_order:
  assumes "giterr__check_version given_opts 1"
    and "rebase_normalize_opts repo given_opts = Inr opts"
    and "upstream \<noteq> None \<or> onto \<noteq> None"
  shows
    "(is_bare repo \<longrightarrow>
        git_rebase repo branch upstream onto signature given_opts =
          (Inl (GIT_EBAREREPO,
             ''Cannot rebase. This operation is not allowed against bare repositories.''), repo))
   \<and> (\<not> is_bare repo \<and> (git_path_isdir repo REBASE_APPLY_DIR \<or> git_path_isdir repo REBASE_MERGE_DIR) \<longrightarrow>
        git_rebase repo branch upstream onto signature given_opts =
          (Inl (GIT_ERROR, ''There is an existing rebase in progress''), repo))
   \<and> (\<not> is_bare repo \<and> \<not> git_path_isdir repo REBASE_APPLY_DIR \<and> \<not> git_path_isdir repo REBASE_MERGE_DIR
        \<and> git_repository_head_tree repo = Inr head_tree \<and> git_repository_index repo = Inr idx
        \<and> git_diff_tree_to_index repo head_tree idx = Inr diff \<and> 0 < git_diff_num_deltas diff \<longrightarrow>
        git_rebase repo branch upstream onto signature given_opts =
          (Inl (GIT_ERROR, ''Uncommitted changes exist in index''), repo))
   \<and> (\<not> is_bare repo \<and> \<not> git_path_isdir repo REBASE_APPLY_DIR \<and> \<not> git_path_isdir repo REBASE_MERGE_DIR
        \<and> git_repository_head_tree repo = Inr head_tree \<and> git_repository_index repo = Inr idx
        \<and> git_diff_tree_to_index repo head_tree idx = Inr diff \<and> git_diff_num_deltas diff = 0
        \<and> git_diff_index_to_workdir repo idx = Inr diff' \<and> 0 < git_diff_num_deltas diff' \<longrightarrow>
        git_rebase repo branch upstream onto signature given_opts =
          (Inl (GIT_ERROR, ''Unstaged changes exist in workdir''), repo))
   \<and> distinct
        [(GIT_EBAREREPO, ''Cannot rebase. This operation is not allowed against bare repositories.''),
         (GIT_ERROR, ''There is an existing rebase in progress''),
         (GIT_ERROR, ''Uncommitted changes exist in index''),
         (GIT_ERROR, ''Unstaged changes exist in workdir'')]"
proof -
  obtain onto' where o: "(case onto of None \<Rightarrow> upstream | Some given_onto \<Rightarrow> Some given_onto) = Some onto'"
    using assms(3) by (cases onto; cases upstream) auto
  show ?thesis
    using assms(1,2) o
    by (simp add: git_rebase_def git_repository__ensure_not_bare_def
        rebase_ensure_not_in_progress_def rebase_state_type_def rebase_ensure_not_dirty_def)
qed

theorem init_preconditions_in_order_witness:
  "git_rebase ex_bare ex_branch (Some ex_upstream) None ex_sig None =
     (Inl (GIT_EBAREREPO,
        ''Cannot rebase. This operation is not allowed against bare repositories.''), ex_bare)
   \<and> git_rebase (ex_picked ex_topic) ex_branch (Some ex_upstream) None ex_sig None =
     (Inl (GIT_ERROR, ''There is an existing rebase in progress''), ex_picked ex_topic)
   \<and> git_rebase ex_dirty_index ex_branch (Some ex_upstream) None ex_sig None =
     (Inl (GIT_ERROR, ''Uncommitted changes exist in index''), ex_dirty_index)
   \<and> git_rebase ex_dirty_workdir ex_branch (Some ex_upstream) None ex_sig None =
     (Inl (GIT_ERROR, ''Unstaged changes exist in workdir''), ex_dirty_workdir)"
proof -
  have v: "giterr__check_version None 1" by (simp add: giterr__check_version_def)
  have u: "Some ex_upstream \<noteq> None \<or> (None :: git_merge_head option) \<noteq> None" by simp
  have o1: "rebase_normalize_opts ex_bare None = Inr GIT_REBASE_OPTIONS_INIT" by code_simp
  have b1: "is_bare ex_bare" by (simp add: ex_bare_def)
  have 1: "git_rebase ex_bare ex_branch (Some ex_upstream) None ex_sig None =
     (Inl (GIT_EBAREREPO,
        ''Cannot rebase. This operation is not allowed against bare repositories.''), ex_bare)"
    using init_preconditions_in_order [OF v o1 u, where branch = ex_branch and signature = ex_sig] b1
    by blast
  have o2: "rebase_normalize_opts (ex_picked ex_topic) None = Inr GIT_REBASE_OPTIONS_INIT"
    by code_simp
  have b2: "\<not> is_bare (ex_picked ex_topic) \<and> git_path_isdir (ex_picked ex_topic) REBASE_MERGE_DIR"
    by (simp add: ex_picked_def ex_repo_def git_path_isdir_def)
  have 2: "git_rebase (ex_picked ex_topic) ex_branch (Some ex_upstream) None ex_sig None =
     (Inl (GIT_ERROR, ''There is an existing rebase in progress''), ex_picked ex_topic)"
    using init_preconditions_in_order [OF v o2 u, where branch = ex_branch and signature = ex_sig] b2
    by blast
  have o3: "rebase_normalize_opts ex_dirty_index None = Inr GIT_REBASE_OPTIONS_INIT" by code_simp
  have b3: "\<not> is_bare ex_dirty_index \<and> \<not> git_path_isdir ex_dirty_index REBASE_APPLY_DIR
      \<and> \<not> git_path_isdir ex_dirty_index REBASE_MERGE_DIR"
    by (simp add: ex_dirty_index_def ex_repo_def git_path_isdir_def)
  have h3: "git_repository_head_tree ex_dirty_index = Inr [(''f'', ''1''), (''g'', ''1''), (''h'', ''1'')]"
    by code_simp
  have i3: "git_repository_index ex_dirty_index =
      Inr \<lparr>entries = [(''f'', ''2''), (''g'', ''1''), (''h'', ''1'')], conflicts = []\<rparr>"
    by code_simp
  have d3: "git_diff_tree_to_index ex_dirty_index [(''f'', ''1''), (''g'', ''1''), (''h'', ''1'')]
      \<lparr>entries = [(''f'', ''2''), (''g'', ''1''), (''h'', ''1'')], conflicts = []\<rparr> = Inr [''f'']"
    by code_simp
  have n3: "0 < git_diff_num_deltas [''f'']" by (simp add: git_diff_num_deltas_def)
  have 3: "git_rebase ex_dirty_index ex_branch (Some ex_upstream) None ex_sig None =
     (Inl (GIT_ERROR, ''Uncommitted changes exist in index''), ex_dirty_index)"
    using init_preconditions_in_order [OF v o3 u,
        where head_tree = "[(''f'', ''1''), (''g'', ''1''), (''h'', ''1'')]"
          and idx = "\<lparr>entries = [(''f'', ''2''), (''g'', ''1''), (''h'', ''1'')], conflicts = []\<rparr>"
          and diff = "[''f'']" and branch = ex_branch and signature = ex_sig] b3 h3 i3 d3 n3
    by blast
  have o4: "rebase_normalize_opts ex_dirty_workdir None = Inr GIT_REBASE_OPTIONS_INIT" by code_simp
  have b4: "\<not> is_bare ex_dirty_workdir \<and> \<not> git_path_isdir ex_dirty_workdir REBASE_APPLY_DIR
      \<and> \<not> git_path_isdir ex_dirty_workdir REBASE_MERGE_DIR"
    by (simp add: ex_dirty_workdir_def ex_repo_def git_path_isdir_def)
  have h4: "git_repository_head_tree ex_dirty_workdir = Inr [(''f'', ''1''), (''g'', ''1''), (''h'', ''1'')]"
    by code_simp
  have i4: "git_repository_index ex_dirty_workdir =
      Inr \<lparr>entries = [(''f'', ''1''), (''g'', ''1''), (''h'', ''1'')], conflicts = []\<rparr>"
    by code_simp
  have d4: "git_diff_tree_to_index ex_dirty_workdir [(''f'', ''1''), (''g'', ''1''), (''h'', ''1'')]
      \<lparr>entries = [(''f'', ''1''), (''g'', ''1''), (''h'', ''1'')], conflicts = []\<rparr> = Inr []"
    by code_simp
  have n4: "git_diff_num_deltas [] = 0" by (simp add: git_diff_num_deltas_def)
  have w4: "git_diff_index_to_workdir ex_dirty_workdir
      \<lparr>entries = [(''f'', ''1''), (''g'', ''1''), (''h'', ''1'')], conflicts = []\<rparr> = Inr [''h'']"
    by code_simp
  have m4: "0 < git_diff_num_deltas [''h'']" by (simp add: git_diff_num_deltas_def)
  have 4: "git_rebase ex_dirty_workdir ex_branch (Some ex_upstream) None ex_sig None =
     (Inl (GIT_ERROR, ''Unstaged changes exist in workdir''), ex_dirty_workdir)"
    using init_preconditions_in_order [OF v o4 u,
        where head_tree = "[(''f'', ''1''), (''g'', ''1''), (''h'', ''1'')]"
          and idx = "\<lparr>entries = [(''f'', ''1''), (''g'', ''1''), (''h'', ''1'')], conflicts = []\<rparr>"
          and diff = "[]" and diff' = "[''h'']" and branch = ex_branch and signature = ex_sig]
      b4 h4 i4 d4 n4 w4 m4
    by blast
  from 1 2 3 4 show ?thesis by blast
qed

subsection \<open>Finish\<close>

text \<open>
  C10. Finish is not atomic on failure: it moves the original branch reference to the
  terminal commit (the reference must still hold \<open>orig_head_id\<close>) and re-creates \<open>HEAD\<close>
  as a symbolic reference to the branch before it copies the notes and before it deletes
  the state directory. If copying the notes fails, finish returns that error while the
  new value of the branch, the symbolic \<open>HEAD\<close> and the state directory stay; since the
  two reference updates only notes were written.
\<close>

theorem finish_not_atomic:
  assumes "rebase_state repo = Inr state"
    and "rebase_normalize_opts repo given_opts = Inr opts"
    and "orig_head_name state = Some branch_name" and "branch_name \<noteq> GIT_HEAD_FILE"
    and "git_repository_head_commit repo = Inr terminal_commit"
    and "git_reference_create_matching repo (Some branch_name) (commit_id terminal_commit) True
           (orig_head_id state) signature
           (''rebase finished: '' @ branch_name @ '' onto '' @ take GIT_OID_HEXSZ (onto_id state))
         = (Inr (), repo1)"
    and "git_reference_symbolic_create repo1 (Some GIT_HEAD_FILE) (Some branch_name) True signature
           (''rebase finished: returning to '' @ branch_name) = (Inr (), repo2)"
    and "rebase_copy_notes repo2 state signature opts = (Inl e, repo3)"
  shows "git_rebase_finish repo signature given_opts = (Inl e, repo3)
    \<and> refs repo3 branch_name = Some (commit_id terminal_commit)
    \<and> refs repo branch_name = Some (orig_head_id state)
    \<and> HEAD repo3 = Some (Symbolic branch_name)
    \<and> dirs repo3 = dirs repo
    \<and> git_path_isdir repo3 REBASE_MERGE_DIR
    \<and> (\<exists>evs. trace repo3 = trace repo @
          [EvRef branch_name (Direct (commit_id terminal_commit))
             (''rebase finished: '' @ branch_name @ '' onto '' @ take GIT_OID_HEXSZ (onto_id state)),
           EvRef GIT_HEAD_FILE (Symbolic branch_name)
             (''rebase finished: returning to '' @ branch_name)] @ evs
          \<and> list_all is_note_event evs)"
proof -
  have r1: "repo1 = set_reference repo branch_name (Direct (commit_id terminal_commit))
             (''rebase finished: '' @ branch_name @ '' onto '' @ take GIT_OID_HEXSZ (onto_id state))"
    and cas: "refs repo branch_name = Some (orig_head_id state)"
    using assms(6)
    by (auto simp: git_reference_create_matching_def split: if_splits sum.splits)
  have r2: "repo2 = set_reference repo1 GIT_HEAD_FILE (Symbolic branch_name)
             (''rebase finished: returning to '' @ branch_name)"
    using assms(7) by (auto simp: git_reference_symbolic_create_def split: if_splits)
  note f = rebase_copy_notes_frame [OF assms(8)]
  have fin: "git_rebase_finish repo signature given_opts = (Inl e, repo3)"
    using assms by (simp add: git_rebase_finish_def rebase_finish_loaded_def fmt_s_def)
  have d: "dirs repo2 = dirs repo" "refs repo2 branch_name = Some (commit_id terminal_commit)"
    "HEAD repo2 = Some (Symbolic branch_name)"
    "trace repo2 = trace repo @
          [EvRef branch_name (Direct (commit_id terminal_commit))
             (''rebase finished: '' @ branch_name @ '' onto '' @ take GIT_OID_HEXSZ (onto_id state)),
           EvRef GIT_HEAD_FILE (Symbolic branch_name)
             (''rebase finished: returning to '' @ branch_name)]"
    using assms(4) unfolding r2 r1 by (simp_all add: set_reference_def)
  from rebase_state_loaded(3) [OF assms(1)] have "git_path_isdir repo REBASE_MERGE_DIR" .
  then have "git_path_isdir repo3 REBASE_MERGE_DIR"
    using f d(1) by (simp add: git_path_isdir_def)
  with fin f d cas show ?thesis by auto
qed

theorem finish_not_atomic_witness:
  "git_rebase_finish ex_malformed ex_sig (Some ex_notes_opts) =
     (Inl (GIT_ERROR, ''Invalid rewritten file at line 1''), ex_malformed3)
   \<and> refs ex_malformed3 ex_topic = Some oid_U
   \<and> refs ex_malformed ex_topic = Some oid_T
   \<and> HEAD ex_malformed3 = Some (Symbolic ex_topic)
   \<and> git_path_isdir ex_malformed3 REBASE_MERGE_DIR"
proof -
  have s: "rebase_state ex_malformed = Inr (ex_state ex_topic)" by code_simp
  have o: "rebase_normalize_opts ex_malformed (Some ex_notes_opts) = Inr ex_notes_opts" by code_simp
  have n: "orig_head_name (ex_state ex_topic) = Some ex_topic"
    by (simp add: ex_state_def ex_topic_def ORIG_DETACHED_HEAD_def)
  have nh: "ex_topic \<noteq> GIT_HEAD_FILE" by (simp add: ex_topic_def GIT_HEAD_FILE_def)
  have t: "git_repository_head_commit ex_malformed = Inr (ex_commit oid_U [] [(''f'', ''0'')] 0)"
    by code_simp
  have ids: "commit_id (ex_commit oid_U [] [(''f'', ''0'')] 0) = oid_U"
    "orig_head_id (ex_state ex_topic) = oid_T" "onto_id (ex_state ex_topic) = oid_U"
    by (simp_all add: ex_commit_def ex_state_def)
  have "fst (git_reference_create_matching ex_malformed (Some ex_topic) oid_U True oid_T ex_sig
            ex_finish_msg1) = Inr ()"
    by code_simp
  then have c1: "git_reference_create_matching ex_malformed (Some ex_topic)
      (commit_id (ex_commit oid_U [] [(''f'', ''0'')] 0)) True (orig_head_id (ex_state ex_topic)) ex_sig
      (''rebase finished: '' @ ex_topic @ '' onto '' @ take GIT_OID_HEXSZ (onto_id (ex_state ex_topic)))
      = (Inr (), ex_malformed1)"
    unfolding ex_malformed1_def ids ex_finish_msg1_def by (rule pair_collapse)
  have "fst (git_reference_symbolic_create ex_malformed1 (Some GIT_HEAD_FILE) (Some ex_topic) True
            ex_sig ex_finish_msg2) = Inr ()"
    by code_simp
  then have c2: "git_reference_symbolic_create ex_malformed1 (Some GIT_HEAD_FILE) (Some ex_topic) True
      ex_sig (''rebase finished: returning to '' @ ex_topic) = (Inr (), ex_malformed2)"
    unfolding ex_malformed2_def ex_finish_msg2_def by (rule pair_collapse)
  have "fst (rebase_copy_notes ex_malformed2 (ex_state ex_topic) ex_sig ex_notes_opts)
     = Inl (GIT_ERROR, ''Invalid rewritten file at line 1'')"
    by code_simp
  then have c3: "rebase_copy_notes ex_malformed2 (ex_state ex_topic) ex_sig ex_notes_opts
     = (Inl (GIT_ERROR, ''Invalid rewritten file at line 1''), ex_malformed3)"
    unfolding ex_malformed3_def by (rule pair_collapse)
  from finish_not_atomic [OF s o n nh t c1 c2 c3] show ?thesis
    unfolding ids by blast
qed

end
